theory Spec2Isabelle
  imports Complex_Main "HOL-Library.Sublist"
begin

section \<open>Values of the language\<close>

text \<open>
  A number of the language is an IEEE double.  The handler never does arithmetic on
  numbers; it only compares them with \<open><\<close> and tests them for truthiness, and both are
  exact on doubles.  So a finite number is modelled by the real it denotes (every double
  is a rational), next to the three special values.  Negative zero denotes the real 0 and
  is treated by \<open><\<close> and by truthiness as zero is.
\<close>

datatype jsnum = NaN | NegInf | Fin real | PosInf

text \<open>The operator \<open><\<close> on two numbers: false as soon as one side is NaN.\<close>

fun num_lt :: "jsnum \<Rightarrow> jsnum \<Rightarrow> bool" where
  "num_lt (Fin a) (Fin b) = (a < b)"
| "num_lt (Fin a) PosInf = True"
| "num_lt NegInf (Fin b) = True"
| "num_lt NegInf PosInf = True"
| "num_lt _ _ = False"

text \<open>
  The literal \<open>0.6\<close> of the source is the double nearest to six tenths,
  \<open>5404319552844595 / 2^53\<close>; a JSON body that spells \<open>0.6\<close> is parsed to the same double.
\<close>

definition lit_0_6 :: real where
  "lit_0_6 = 5404319552844595 / 9007199254740992"

text \<open>What a parsed request body can hold, and \<open>undefined\<close> for a property that is absent.\<close>

datatype jsval =
    JUndefined
  | JNull
  | JBool bool
  | JNum jsnum
  | JStr string
  | JArr "jsval list"
  | JObj "(string \<times> jsval) list"

text \<open>Truthiness, as \<open>!x\<close> tests it.\<close>

fun truthy :: "jsval \<Rightarrow> bool" where
  "truthy JUndefined = False"
| "truthy JNull = False"
| "truthy (JBool b) = b"
| "truthy (JNum n) = (n \<noteq> NaN \<and> n \<noteq> Fin 0)"
| "truthy (JStr s) = (s \<noteq> [])"
| "truthy (JArr xs) = True"
| "truthy (JObj kvs) = True"

text \<open>
  \<open>req.body\<close> is the object the body parser produced: a finite map from property names
  to values.  Reading a property that is absent gives \<open>undefined\<close>.
\<close>

type_synonym body = "string \<rightharpoonup> jsval"

definition get_prop :: "body \<Rightarrow> string \<Rightarrow> jsval" where
  "get_prop b k = (case b k of None \<Rightarrow> JUndefined | Some v \<Rightarrow> v)"

text \<open>
  A destructuring default \<open>{ x = d } = obj\<close> takes \<open>d\<close> exactly when the property reads
  as \<open>undefined\<close>; every other value, falsy or not, is kept.
\<close>

definition with_default :: "jsval \<Rightarrow> jsval \<Rightarrow> jsval" where
  "with_default d v = (case v of JUndefined \<Rightarrow> d | _ \<Rightarrow> v)"


section \<open>The world outside the handler\<close>

type_synonym buffer = "nat list"

datatype error = Error (message: string)

datatype image = Image (src: buffer)

text \<open>Of a detection the handler reads the descriptor only.\<close>

datatype detection = Detection (descriptor: "real list")

datatype facematch = FaceMatch (label: string) (distance: jsnum)

datatype matcher = FaceMatcher "detection list"

datatype fetch_response =
  Response (ok: bool) (statusText: string) (arrayBuffer: "error + buffer")

text \<open>
  The libraries and built-ins the file calls are parameters of the model.  Each call
  that can throw or reject returns \<open>Inl\<close> of the error, and within one request a call
  with the same argument has the same outcome.  \<open>string_to_number\<close> and
  \<open>number_to_string\<close> are the two conversions built into the language (reading a
  numeric string as a double, printing a double); neither throws.
\<close>

record extern =
  fetch :: "string \<Rightarrow> error + fetch_response"
  readFileSync :: "string \<Rightarrow> error + buffer"
  from_base64 :: "string \<Rightarrow> buffer"
  sharp_resize :: "buffer \<Rightarrow> error + buffer"
  detectAllFaces :: "image \<Rightarrow> error + detection list"
  newFaceMatcher :: "detection list \<Rightarrow> error + matcher"
  findBestMatch :: "matcher \<Rightarrow> real list \<Rightarrow> error + facematch"
  string_to_number :: "string \<Rightarrow> jsnum"
  number_to_string :: "jsnum \<Rightarrow> string"

text \<open>
  The calls a request makes, in order.  \<open>LoadImage\<close> marks an entry into the file's own
  \<open>loadImage\<close>; the others are calls into the libraries.  Console output is not recorded.
\<close>

datatype event =
    LoadImage jsval
  | Fetch string
  | ReadBody
  | ReadFile string
  | Sharp buffer
  | DetectAllFaces image
  | NewFaceMatcher "detection list"
  | FindBestMatch "real list"

text \<open>A computation yields the calls it made and either the error thrown or a value.\<close>

type_synonym 'a io = "event list \<times> (error + 'a)"

definition io_return :: "'a \<Rightarrow> 'a io" where
  "io_return x = ([], Inr x)"

definition io_throw :: "error \<Rightarrow> 'a io" where
  "io_throw e = ([], Inl e)"

definition io_call :: "event \<Rightarrow> error + 'a \<Rightarrow> 'a io" where
  "io_call ev r = ([ev], r)"

definition io_bind :: "'a io \<Rightarrow> ('a \<Rightarrow> 'b io) \<Rightarrow> 'b io" where
  "io_bind m f =
     (case m of
        (t, Inl e) \<Rightarrow> (t, Inl e)
      | (t, Inr x) \<Rightarrow> (case f x of (t', r) \<Rightarrow> (t @ t', r)))"

definition io_catch :: "'a io \<Rightarrow> (error \<Rightarrow> 'a io) \<Rightarrow> 'a io" where
  "io_catch m h =
     (case m of
        (t, Inl e) \<Rightarrow> (case h e of (t', r) \<Rightarrow> (t @ t', r))
      | (t, Inr x) \<Rightarrow> (t, Inr x))"


section \<open>loadImage\<close>

text \<open>
  \<open>imageSource.replace(/^data:image\/(png|jpeg|jpg);base64,/, '')\<close>: the match is
  anchored at the start, so at most one of the three spellings is removed, and a string
  that begins with none of them is returned as it is.
\<close>

definition strip_data_prefix :: "string \<Rightarrow> string" where
  "strip_data_prefix s =
     (if prefix ''data:image/png;base64,'' s then drop (length ''data:image/png;base64,'') s
      else if prefix ''data:image/jpeg;base64,'' s then drop (length ''data:image/jpeg;base64,'') s
      else if prefix ''data:image/jpg;base64,'' s then drop (length ''data:image/jpg;base64,'') s
      else s)"

text \<open>The tail both variants share: resize with sharp, then wrap the bytes in an Image.\<close>

definition to_image :: "extern \<Rightarrow> buffer \<Rightarrow> image io" where
  "to_image ext buf =
     io_bind (io_call (Sharp buf) (sharp_resize ext buf)) (\<lambda>image. io_return (Image image))"

text \<open>
  Variant A (the file with fields \<open>image1\<close>, \<open>image2\<close>; lines 78 to 116 of
  \<open>src/ecosystem.config.js\<close>).  A value that is not a string has no \<open>startsWith\<close>, and the
  call throws a TypeError.
\<close>

definition loadImage_A :: "extern \<Rightarrow> jsval \<Rightarrow> image io" where
  "loadImage_A ext imageSource =
     io_bind (io_call (LoadImage imageSource) (Inr ())) (\<lambda>_.
       case imageSource of
         JStr s \<Rightarrow>
           io_bind
             (if prefix ''data:image'' s then
                io_return (from_base64 ext (strip_data_prefix s))
              else if prefix ''http://'' s \<or> prefix ''https://'' s then
                io_bind (io_call (Fetch s) (fetch ext s)) (\<lambda>response.
                  if \<not> ok response then
                    io_throw (Error (''Failed to fetch image from URL: '' @ statusText response))
                  else io_call ReadBody (arrayBuffer response))
              else
                io_catch (io_call (ReadFile s) (readFileSync ext s)) (\<lambda>e.
                  io_throw (Error (''Failed to read local image file: '' @ message e))))
             (to_image ext)
       | _ \<Rightarrow> io_throw (Error ''imageSource.startsWith is not a function''))"

text \<open>
  Variant B (the file with fields \<open>image1Path\<close>, \<open>image2Path\<close>; lines 276 to 295): no case
  for embedded data, no test of \<open>response.ok\<close>, no \<open>try\<close> around the read.
\<close>

definition loadImage_B :: "extern \<Rightarrow> jsval \<Rightarrow> image io" where
  "loadImage_B ext imagePath =
     io_bind (io_call (LoadImage imagePath) (Inr ())) (\<lambda>_.
       case imagePath of
         JStr s \<Rightarrow>
           io_bind
             (if prefix ''http://'' s \<or> prefix ''https://'' s then
                io_bind (io_call (Fetch s) (fetch ext s)) (\<lambda>response.
                  io_call ReadBody (arrayBuffer response))
              else io_call (ReadFile s) (readFileSync ext s))
             (to_image ext)
       | _ \<Rightarrow> io_throw (Error ''imagePath.startsWith is not a function''))"


section \<open>The handler of POST /compare-faces\<close>

text \<open>
  The three shapes of JSON the handler sends; the selectors carry the prefix \<open>res_\<close>
  where the property name is also a field of an error or of a match.
\<close>

datatype payload =
    ErrorBody (res_error: string)
  | NoFace (res_match: bool) (res_message: string)
  | Result (res_match: bool) (res_distance: jsnum) (res_threshold: jsval) (res_message: string)
      (facesDetectedImage1: nat) (facesDetectedImage2: nat)

record response =
  status :: nat
  payload :: payload

text \<open>The five responses the handler can send.\<close>

definition models_loading :: response where
  "models_loading =
     \<lparr>status = 503,
      payload = ErrorBody ''Models are still loading. Please try again shortly.''\<rparr>"

definition missing_field :: "string \<Rightarrow> response" where
  "missing_field msg = \<lparr>status = 400, payload = ErrorBody msg\<rparr>"

definition no_face :: response where
  "no_face =
     \<lparr>status = 400,
      payload = NoFace False ''Could not detect faces in one or both images.''\<rparr>"

definition comparison ::
  "bool \<Rightarrow> jsnum \<Rightarrow> jsval \<Rightarrow> nat \<Rightarrow> nat \<Rightarrow> response" where
  "comparison isMatch bestDistance threshold n1 n2 =
     \<lparr>status = 200,
      payload = Result isMatch bestDistance threshold
        (if isMatch then ''Faces match!'' else ''Faces do not match.'') n1 n2\<rparr>"

definition server_error :: "error \<Rightarrow> response" where
  "server_error e =
     \<lparr>status = 500,
      payload = ErrorBody
        (''Internal server error during face comparison: '' @ message e)\<rparr>"

text \<open>
  The conversions the operator \<open><\<close> applies to an operand that is not a number.  A body
  holds plain data, so an array is converted by the inherited \<open>join\<close> (elements
  separated by commas, \<open>null\<close> and \<open>undefined\<close> printed as nothing), and an object by the
  inherited \<open>toString\<close>, unless it has a property of its own named \<open>toString\<close>: that
  property is data, not a function, and the conversion throws a TypeError.
\<close>

fun to_str :: "extern \<Rightarrow> jsval \<Rightarrow> error + string"
  and array_join :: "extern \<Rightarrow> jsval list \<Rightarrow> error + string" where
  "to_str ext JUndefined = Inr ''undefined''"
| "to_str ext JNull = Inr ''null''"
| "to_str ext (JBool b) = Inr (if b then ''true'' else ''false'')"
| "to_str ext (JNum n) = Inr (number_to_string ext n)"
| "to_str ext (JStr s) = Inr s"
| "to_str ext (JArr xs) = array_join ext xs"
| "to_str ext (JObj kvs) =
     (if ''toString'' \<in> fst ` set kvs
      then Inl (Error ''Cannot convert object to primitive value'')
      else Inr ''[object Object]'')"
| "array_join ext [] = Inr []"
| "array_join ext (x # xs) =
     (case (if x = JUndefined \<or> x = JNull then Inr [] else to_str ext x) of
        Inl e \<Rightarrow> Inl e
      | Inr s \<Rightarrow>
          if xs = [] then Inr s
          else (case array_join ext xs of
                  Inl e \<Rightarrow> Inl e
                | Inr r \<Rightarrow> Inr (s @ '','' @ r)))"

definition to_number :: "extern \<Rightarrow> jsval \<Rightarrow> error + jsnum" where
  "to_number ext v =
     (case v of
        JUndefined \<Rightarrow> Inr NaN
      | JNull \<Rightarrow> Inr (Fin 0)
      | JBool b \<Rightarrow> Inr (Fin (if b then 1 else 0))
      | JNum n \<Rightarrow> Inr n
      | JStr s \<Rightarrow> Inr (string_to_number ext s)
      | _ \<Rightarrow>
          (case to_str ext v of
             Inl e \<Rightarrow> Inl e
           | Inr s \<Rightarrow> Inr (string_to_number ext s)))"

text \<open>
  \<open>bestDistance < threshold\<close>, where \<open>bestDistance\<close> is a number and \<open>threshold\<close> any
  value: the threshold is converted to a number, and the numbers are compared.
\<close>

definition js_less :: "extern \<Rightarrow> jsnum \<Rightarrow> jsval \<Rightarrow> bool io" where
  "js_less ext x v =
     (case to_number ext v of
        Inl e \<Rightarrow> io_throw e
      | Inr y \<Rightarrow> io_return (num_lt x y))"

text \<open>
  The \<open>forEach\<close> over the detections of the first image (lines 166 to 175 and 346 to
  355), with the two variables it updates as the accumulator.  A throw of
  \<open>findBestMatch\<close> leaves the loop.
\<close>

fun best_loop ::
  "extern \<Rightarrow> matcher \<Rightarrow> detection list \<Rightarrow> facematch option \<times> jsnum
     \<Rightarrow> (facematch option \<times> jsnum) io" where
  "best_loop ext faceMatcher [] acc = io_return acc"
| "best_loop ext faceMatcher (detection1 # rest) (bestMatch, bestDistance) =
     io_bind
       (io_call (FindBestMatch (descriptor detection1))
          (findBestMatch ext faceMatcher (descriptor detection1)))
       (\<lambda>m. best_loop ext faceMatcher rest
          (if num_lt (distance m) bestDistance then (Some m, distance m)
           else (bestMatch, bestDistance)))"

text \<open>
  What the loop computes from the matches that \<open>findBestMatch\<close> returned, one for
  each detection of the first image in order.
\<close>

fun best_of ::
  "facematch list \<Rightarrow> facematch option \<times> jsnum \<Rightarrow> facematch option \<times> jsnum" where
  "best_of [] acc = acc"
| "best_of (m # ms) (bestMatch, bestDistance) =
     best_of ms
       (if num_lt (distance m) bestDistance then (Some m, distance m)
        else (bestMatch, bestDistance))"

text \<open>
  The first half of the \<open>try\<close> block (lines 140 to 151 and 315 to 330): both images
  are resolved, then the detection pipeline runs on the first and on the second.
\<close>

definition detect_both ::
  "(extern \<Rightarrow> jsval \<Rightarrow> image io) \<Rightarrow> extern \<Rightarrow> jsval \<Rightarrow> jsval
     \<Rightarrow> (detection list \<times> detection list) io" where
  "detect_both loadImage ext image1 image2 =
     io_bind (loadImage ext image1) (\<lambda>img1.
     io_bind (loadImage ext image2) (\<lambda>img2.
     io_bind (io_call (DetectAllFaces img1) (detectAllFaces ext img1)) (\<lambda>detections1.
     io_bind (io_call (DetectAllFaces img2) (detectAllFaces ext img2)) (\<lambda>detections2.
     io_return (detections1, detections2)))))"

text \<open>
  The second half (lines 157 to 188 and 337 to 368): from the two detection collections
  to the response.
\<close>

definition compare_detections ::
  "extern \<Rightarrow> jsval \<Rightarrow> detection list \<Rightarrow> detection list \<Rightarrow> response io" where
  "compare_detections ext threshold detections1 detections2 =
     (if length detections1 = 0 \<or> length detections2 = 0 then
        io_return no_face
      else
        io_bind (io_call (NewFaceMatcher detections2) (newFaceMatcher ext detections2))
          (\<lambda>faceMatcher.
        io_bind (best_loop ext faceMatcher detections1 (None, PosInf))
          (\<lambda>(bestMatch, bestDistance).
        io_bind (js_less ext bestDistance threshold)
          (\<lambda>isMatch.
        io_return
          (comparison isMatch bestDistance threshold
             (length detections1) (length detections2))))))"

text \<open>
  The handler (lines 123 to 195 and 298 to 375).  The two files differ in \<open>loadImage\<close>,
  in the names of the two image fields and in the text of the missing-field error;
  these are the first four arguments.  \<open>modelsLoaded\<close> is the process-wide flag, which the handler only reads.
  The result is the calls made and the response sent.
\<close>

definition compare_faces ::
  "(extern \<Rightarrow> jsval \<Rightarrow> image io) \<Rightarrow> string \<Rightarrow> string \<Rightarrow> string
     \<Rightarrow> extern \<Rightarrow> bool \<Rightarrow> body \<Rightarrow> event list \<times> response" where
  "compare_faces loadImage field1 field2 missing ext modelsLoaded req_body =
     (if \<not> modelsLoaded then
        ([], models_loading)
      else
        let image1 = get_prop req_body field1;
            image2 = get_prop req_body field2;
            threshold = with_default (JNum (Fin lit_0_6)) (get_prop req_body ''threshold'')
        in
          if \<not> truthy image1 \<or> \<not> truthy image2 then
            ([], missing_field missing)
          else
            (case io_bind (detect_both loadImage ext image1 image2)
                    (\<lambda>(detections1, detections2).
                       compare_detections ext threshold detections1 detections2) of
               (t, Inr res) \<Rightarrow> (t, res)
             | (t, Inl e) \<Rightarrow> (t, server_error e)))"

definition missing_A :: string where
  "missing_A = ''Please provide both image1 and image2 in the request body. These can be URLs, local paths, or Base64 strings.''"

definition missing_B :: string where
  "missing_B = ''Please provide both image1Path and image2Path in the request body.''"

definition compare_faces_A :: "extern \<Rightarrow> bool \<Rightarrow> body \<Rightarrow> event list \<times> response" where
  "compare_faces_A = compare_faces loadImage_A ''image1'' ''image2'' missing_A"

definition compare_faces_B :: "extern \<Rightarrow> bool \<Rightarrow> body \<Rightarrow> event list \<times> response" where
  "compare_faces_B = compare_faces loadImage_B ''image1Path'' ''image2Path'' missing_B"

text \<open>The two files of the repository that define the endpoint.\<close>

datatype variant = VariantA | VariantB

fun loadImage :: "variant \<Rightarrow> extern \<Rightarrow> jsval \<Rightarrow> image io" where
  "loadImage VariantA = loadImage_A"
| "loadImage VariantB = loadImage_B"

fun field1 :: "variant \<Rightarrow> string" where
  "field1 VariantA = ''image1''"
| "field1 VariantB = ''image1Path''"

fun field2 :: "variant \<Rightarrow> string" where
  "field2 VariantA = ''image2''"
| "field2 VariantB = ''image2Path''"

fun missing :: "variant \<Rightarrow> string" where
  "missing VariantA = missing_A"
| "missing VariantB = missing_B"

fun handler :: "variant \<Rightarrow> extern \<Rightarrow> bool \<Rightarrow> body \<Rightarrow> event list \<times> response" where
  "handler VariantA = compare_faces_A"
| "handler VariantB = compare_faces_B"

text \<open>Which calls belong to the match computation, and which to the detection pipeline.\<close>

fun is_match_event :: "event \<Rightarrow> bool" where
  "is_match_event (NewFaceMatcher ds) = True"
| "is_match_event (FindBestMatch q) = True"
| "is_match_event _ = False"

fun is_detect_event :: "event \<Rightarrow> bool" where
  "is_detect_event (DetectAllFaces img) = True"
| "is_detect_event _ = False"

text \<open>The calls that resolve an image source: everything before detection.\<close>

fun is_resolve_event :: "event \<Rightarrow> bool" where
  "is_resolve_event (DetectAllFaces img) = False"
| "is_resolve_event (NewFaceMatcher ds) = False"
| "is_resolve_event (FindBestMatch q) = False"
| "is_resolve_event _ = True"

text \<open>A computation that runs after the calls \<open>t\<close> have been made.\<close>

definition after :: "event list \<Rightarrow> 'a io \<Rightarrow> 'a io" where
  "after t m = (t @ fst m, snd m)"


section \<open>Starting the server\<close>

text \<open>
  Both files end the same way (lines 53 to 75 and 198 to 214; lines 252 to 274 and 378 to
  391): \<open>loadModels\<close> loads three networks from disk one after the other and then sets
  \<open>modelsLoaded\<close>, or logs the error and exits the process with code 1; \<open>app.listen\<close> is
  called in the \<open>then\<close> of \<open>loadModels()\<close>, so only after the flag is set.  The loading
  of a network and the binding of the port are parameters.
\<close>

datatype net = SsdMobilenetv1 | FaceLandmark68Net | FaceRecognitionNet

record startup =
  loadFromDisk :: "net \<Rightarrow> error + unit"
  listen :: "error + unit"

record process =
  modelsLoaded :: bool
  listening :: bool
  exit_code :: "nat option"

text \<open>The process as the script begins: \<open>let modelsLoaded = false\<close>, no server yet.\<close>

definition launched :: process where
  "launched = \<lparr>modelsLoaded = False, listening = False, exit_code = None\<rparr>"

definition loadModels :: "startup \<Rightarrow> process \<Rightarrow> process" where
  "loadModels w p =
     (case loadFromDisk w SsdMobilenetv1 of
        Inl e \<Rightarrow> p\<lparr>exit_code := Some 1\<rparr>
      | Inr _ \<Rightarrow>
          (case loadFromDisk w FaceLandmark68Net of
             Inl e \<Rightarrow> p\<lparr>exit_code := Some 1\<rparr>
           | Inr _ \<Rightarrow>
               (case loadFromDisk w FaceRecognitionNet of
                  Inl e \<Rightarrow> p\<lparr>exit_code := Some 1\<rparr>
                | Inr _ \<Rightarrow> p\<lparr>modelsLoaded := True\<rparr>)))"

text \<open>
  \<open>loadModels().then(() => app.listen(port, ...))\<close>.  A port that cannot be bound is an
  error event nobody handles, which ends the process.
\<close>

definition start :: "startup \<Rightarrow> process" where
  "start w =
     (let p = loadModels w launched
      in if exit_code p \<noteq> None then p
         else (case listen w of
                 Inl e \<Rightarrow> p\<lparr>exit_code := Some 1\<rparr>
               | Inr _ \<Rightarrow> p\<lparr>listening := True\<rparr>))"

text \<open>
  A request reaches the handler only while the process is listening; otherwise the
  connection is refused and there is no response.  The handler reads the flag of the
  process.
\<close>

definition serve ::
  "variant \<Rightarrow> extern \<Rightarrow> process \<Rightarrow> body \<Rightarrow> (event list \<times> response) option" where
  "serve v ext p req_body =
     (if listening p \<and> exit_code p = None
      then Some (handler v ext (modelsLoaded p) req_body)
      else None)"


section \<open>A small world to run the handler in\<close>

text \<open>
  An executable stand-in for the libraries: four files and two URLs; every non-zero
  byte \<open>k\<close> of an image is a face whose descriptor is the one-dimensional vector
  \<open>k / 10\<close>; the matcher labels the stored descriptors \<open>person I\<close>, \<open>person II\<close>, ... and
  returns the label and the distance of the one nearest to the query.
\<close>

definition l1_dist :: "real list \<Rightarrow> real list \<Rightarrow> real" where
  "l1_dist q d = sum_list (map (\<lambda>(x, y). \<bar>x - y\<bar>) (zip q d))"

definition demo_label :: "nat \<Rightarrow> string" where
  "demo_label k = ''person '' @ replicate k (CHR ''I'')"

fun nearest :: "real list \<Rightarrow> detection list \<Rightarrow> nat \<Rightarrow> facematch \<Rightarrow> facematch" where
  "nearest q [] k best = best"
| "nearest q (d # ds) k best =
     nearest q ds (Suc k)
       (if num_lt (distance best) (Fin (l1_dist q (descriptor d))) then best
        else FaceMatch (demo_label k) (Fin (l1_dist q (descriptor d))))"

definition demo_findBestMatch :: "matcher \<Rightarrow> real list \<Rightarrow> error + facematch" where
  "demo_findBestMatch fm q =
     (case fm of FaceMatcher ds \<Rightarrow>
        (case ds of
           [] \<Rightarrow> Inl (Error ''no labeled descriptors'')
         | d # rest \<Rightarrow>
             Inr (nearest q rest 2
                    (FaceMatch (demo_label 1) (Fin (l1_dist q (descriptor d)))))))"

definition demo_ext :: extern where
  "demo_ext = \<lparr>
     fetch = (\<lambda>url.
       if url = ''http://img.test/gone.jpg'' then Inr (Response False ''Not Found'' (Inr [9]))
       else if url = ''https://img.test/ann.jpg'' then Inr (Response True ''OK'' (Inr [3, 7]))
       else Inl (Error ''request failed'')),
     readFileSync = (\<lambda>path.
       if path = ''ann.jpg'' then Inr [3, 7]
       else if path = ''mid.jpg'' then Inr [5]
       else if path = ''duo.jpg'' then Inr [1, 9]
       else if path = ''sky.jpg'' then Inr [0]
       else Inl (Error ''ENOENT: no such file or directory'')),
     from_base64 = map of_char,
     sharp_resize = (\<lambda>buf.
       if buf = [] then Inl (Error ''Input Buffer is empty'') else Inr buf),
     detectAllFaces = (\<lambda>img.
       Inr (map (\<lambda>k. Detection [real k / 10]) (filter (\<lambda>k. k \<noteq> 0) (src img)))),
     newFaceMatcher = (\<lambda>ds.
       if ds = [] then Inl (Error ''expected atleast one input'') else Inr (FaceMatcher ds)),
     findBestMatch = demo_findBestMatch,
     string_to_number = (\<lambda>s.
       if s = ''0.25'' then Fin (1 / 4) else if s = ''0'' \<or> s = [] then Fin 0 else NaN),
     number_to_string = (\<lambda>n.
       if n = Fin (1 / 4) then ''0.25'' else if n = Fin 0 then ''0'' else ''NaN'')
   \<rparr>"

definition demo_body :: "variant \<Rightarrow> string \<Rightarrow> string \<Rightarrow> body" where
  "demo_body v src1 src2 = [field1 v \<mapsto> JStr src1, field2 v \<mapsto> JStr src2]"

definition with_threshold :: "body \<Rightarrow> jsval \<Rightarrow> body" where
  "with_threshold b x = b(''threshold'' \<mapsto> x)"

definition demo_startup :: startup where
  "demo_startup = \<lparr>loadFromDisk = (\<lambda>n. Inr ()), listen = Inr ()\<rparr>"

definition empty_body :: body where
  "empty_body = Map.empty"

text \<open>The calls of resolving \<open>ann.jpg\<close> and a second file \<open>f\<close> with bytes \<open>bs\<close>, then detecting.\<close>

definition demo_calls :: "string \<Rightarrow> buffer \<Rightarrow> event list" where
  "demo_calls f bs =
     [LoadImage (JStr ''ann.jpg''), ReadFile ''ann.jpg'', Sharp [3, 7],
      LoadImage (JStr f), ReadFile f, Sharp bs,
      DetectAllFaces (Image [3, 7]), DetectAllFaces (Image bs)]"


section \<open>Laws of the computations\<close>

lemma io_bind_Inr [simp]: "io_bind (t, Inr x) f = (t @ fst (f x), snd (f x))"
  by (simp add: io_bind_def split: prod.splits)

lemma io_bind_Inl [simp]: "io_bind (t, Inl e) f = (t, Inl e)"
  by (simp add: io_bind_def)

lemma io_bind_return [simp]: "io_bind (io_return x) f = f x"
  by (simp add: io_return_def)

lemma io_bind_throw [simp]: "io_bind (io_throw e) f = io_throw e"
  by (simp add: io_throw_def)

lemma io_bind_call_Inr [simp]: "io_bind (io_call ev (Inr x)) f = after [ev] (f x)"
  by (simp add: io_call_def after_def)

lemma io_bind_call_Inl [simp]: "io_bind (io_call ev (Inl e)) f = ([ev], Inl e)"
  by (simp add: io_call_def)

lemma io_bind_after [simp]: "io_bind (after t m) f = after t (io_bind m f)"
  by (cases m; cases "snd m") (auto simp: after_def)

lemma after_after [simp]: "after t (after t' m) = after (t @ t') m"
  by (simp add: after_def)

lemma after_Nil [simp]: "after [] m = m"
  by (simp add: after_def)

lemma fst_after [simp]: "fst (after t m) = t @ fst m"
  by (simp add: after_def)

lemma snd_after [simp]: "snd (after t m) = snd m"
  by (simp add: after_def)

lemma after_pair [simp]: "after t (t', r) = (t @ t', r)"
  by (simp add: after_def)

lemma io_bind_cases:
  "io_bind m f = (t, r) \<Longrightarrow>
     (\<exists>e. m = (t, Inl e) \<and> r = Inl e) \<or>
     (\<exists>t1 x t2. m = (t1, Inr x) \<and> f x = (t2, r) \<and> t = t1 @ t2)"
  by (cases m; cases "snd m") (auto simp: io_bind_def split: prod.splits)


section \<open>Comparing numbers\<close>

lemma num_lt_irrefl [simp]: "\<not> num_lt a a"
  by (cases a) simp_all

lemma num_lt_trans: "num_lt a b \<Longrightarrow> num_lt b c \<Longrightarrow> num_lt a c"
  by (cases a; cases b; cases c) simp_all

lemma num_not_lt_trans: "\<not> num_lt a b \<Longrightarrow> num_lt c b \<Longrightarrow> \<not> num_lt a c"
  by (cases a; cases b; cases c) simp_all


section \<open>The loop over the detections of the first image\<close>

lemma best_loop_Inr:
  "best_loop ext fm ds acc = (t, Inr res) \<Longrightarrow>
     \<exists>ms. map (\<lambda>d. findBestMatch ext fm (descriptor d)) ds = map Inr ms \<and>
          res = best_of ms acc \<and> t = map (\<lambda>d. FindBestMatch (descriptor d)) ds"
proof (induction ds arbitrary: acc t)
  case Nil
  then show ?case by (simp add: io_return_def)
next
  case (Cons d ds)
  obtain bm bd where acc: "acc = (bm, bd)" by (cases acc)
  show ?case
  proof (cases "findBestMatch ext fm (descriptor d)")
    case (Inl e)
    with Cons.prems acc show ?thesis by simp
  next
    case (Inr m)
    let ?acc' = "if num_lt (distance m) bd then (Some m, distance m) else (bm, bd)"
    from Cons.prems acc Inr
    have "after [FindBestMatch (descriptor d)] (best_loop ext fm ds ?acc') = (t, Inr res)"
      by simp
    then obtain t' where t': "best_loop ext fm ds ?acc' = (t', Inr res)"
      and t: "t = FindBestMatch (descriptor d) # t'"
      by (cases "best_loop ext fm ds ?acc'") (auto simp: after_def)
    from Cons.IH [OF t'] obtain ms where
      "map (\<lambda>d. findBestMatch ext fm (descriptor d)) ds = map Inr ms"
      "res = best_of ms ?acc'" "t' = map (\<lambda>d. FindBestMatch (descriptor d)) ds"
      by blast
    with Inr acc t show ?thesis
      by (intro exI [of _ "m # ms"]) simp
  qed
qed

lemma best_loop_run:
  "map (\<lambda>d. findBestMatch ext fm (descriptor d)) ds = map Inr ms \<Longrightarrow>
     best_loop ext fm ds acc =
       (map (\<lambda>d. FindBestMatch (descriptor d)) ds, Inr (best_of ms acc))"
proof (induction ds arbitrary: acc ms)
  case Nil
  then show ?case by (simp add: io_return_def)
next
  case (Cons d ds)
  then obtain m ms' where ms: "ms = m # ms'" by (cases ms) auto
  obtain bm bd where acc: "acc = (bm, bd)" by (cases acc)
  from Cons.prems ms have m: "findBestMatch ext fm (descriptor d) = Inr m"
    and rest: "map (\<lambda>d. findBestMatch ext fm (descriptor d)) ds = map Inr ms'"
    by simp_all
  show ?case
    using m ms acc Cons.IH [OF rest] by simp
qed

lemma best_of_spec:
  "best_of ms (bm, bd) = (bm', bd') \<Longrightarrow>
     (\<forall>m\<in>set ms. \<not> num_lt (distance m) bd') \<and>
     ((bm' = bm \<and> bd' = bd) \<or>
      (num_lt bd' bd \<and> bd' \<in> distance ` set ms \<and>
       bm' = find (\<lambda>m. distance m = bd') ms))"
proof (induction ms arbitrary: bm bd)
  case Nil
  then show ?case by simp
next
  case (Cons m ms)
  show ?case
  proof (cases "num_lt (distance m) bd")
    case True
    with Cons.prems have run: "best_of ms (Some m, distance m) = (bm', bd')" by simp
    from Cons.IH [OF run] have
      lb: "\<forall>m\<in>set ms. \<not> num_lt (distance m) bd'" and
      alt: "(bm' = Some m \<and> bd' = distance m) \<or>
            (num_lt bd' (distance m) \<and> bd' \<in> distance ` set ms \<and>
             bm' = find (\<lambda>m. distance m = bd') ms)"
      by blast+
    from alt show ?thesis
    proof
      assume "bm' = Some m \<and> bd' = distance m"
      with lb True show ?thesis by simp
    next
      assume c: "num_lt bd' (distance m) \<and> bd' \<in> distance ` set ms \<and>
             bm' = find (\<lambda>m. distance m = bd') ms"
      then have ne: "distance m \<noteq> bd'" by auto
      have "\<not> num_lt (distance m) bd'"
        using c by (cases "distance m"; cases bd') simp_all
      moreover have "num_lt bd' bd" using c True by (blast intro: num_lt_trans)
      ultimately show ?thesis using lb c ne by simp
    qed
  next
    case False
    with Cons.prems have run: "best_of ms (bm, bd) = (bm', bd')" by simp
    from Cons.IH [OF run] have
      lb: "\<forall>m\<in>set ms. \<not> num_lt (distance m) bd'" and
      alt: "(bm' = bm \<and> bd' = bd) \<or>
            (num_lt bd' bd \<and> bd' \<in> distance ` set ms \<and>
             bm' = find (\<lambda>m. distance m = bd') ms)"
      by blast+
    from alt show ?thesis
    proof
      assume "bm' = bm \<and> bd' = bd"
      with lb False show ?thesis by simp
    next
      assume c: "num_lt bd' bd \<and> bd' \<in> distance ` set ms \<and>
             bm' = find (\<lambda>m. distance m = bd') ms"
      have nlt: "\<not> num_lt (distance m) bd'"
        using False c by (blast dest: num_not_lt_trans)
      have ne: "distance m \<noteq> bd'" using False c by auto
      show ?thesis using lb c nlt ne by simp
    qed
  qed
qed

lemma best_of_from_infinity:
  assumes "best_of ms (None, PosInf) = (bm, bd)"
  shows "(\<forall>m\<in>set ms. \<not> num_lt (distance m) bd) \<and>
         (bd = PosInf \<or> bd \<in> distance ` set ms)"
  using best_of_spec [OF assms] by auto

lemma best_of_finite:
  assumes run: "best_of ms (None, PosInf) = (bm, bd)" and ne: "ms \<noteq> []"
    and fin: "\<forall>m\<in>set ms. \<exists>x. distance m = Fin x"
  shows "bd \<in> distance ` set ms \<and> (\<forall>m\<in>set ms. \<not> num_lt (distance m) bd) \<and>
         bm = find (\<lambda>m. distance m = bd) ms"
proof -
  from ne obtain m where m: "m \<in> set ms" by (cases ms) auto
  with fin obtain x where "distance m = Fin x" by blast
  then have lt: "num_lt (distance m) PosInf" by simp
  from best_of_spec [OF run] have
    lb: "\<forall>m\<in>set ms. \<not> num_lt (distance m) bd" and
    alt: "(bm = None \<and> bd = PosInf) \<or>
          (num_lt bd PosInf \<and> bd \<in> distance ` set ms \<and> bm = find (\<lambda>m. distance m = bd) ms)"
    by blast+
  from alt lb m lt show ?thesis by auto
qed


section \<open>The outcomes of the handler\<close>

lemma js_less_trace [simp]: "fst (js_less ext x v) = []"
  by (cases "to_number ext v") (simp_all add: js_less_def io_return_def io_throw_def)

lemma to_number_num [simp]: "to_number ext (JNum y) = Inr y"
  by (simp add: to_number_def)

lemma js_less_num [simp]: "js_less ext x (JNum y) = ([], Inr (num_lt x y))"
  by (simp add: js_less_def io_return_def)

lemma js_less_Inr:
  "js_less ext x v = ([], Inr b) \<longleftrightarrow> (\<exists>y. to_number ext v = Inr y \<and> b = num_lt x y)"
  by (cases "to_number ext v") (auto simp: js_less_def io_return_def io_throw_def)

lemma compare_detections_empty:
  "d1 = [] \<or> d2 = [] \<Longrightarrow>
     compare_detections ext thr d1 d2 =
       ([], Inr no_face)"
  by (auto simp: compare_detections_def io_return_def)

lemma compare_detections_Inr:
  assumes "compare_detections ext thr d1 d2 = (t, Inr r)" and "d1 \<noteq> []" and "d2 \<noteq> []"
  shows "\<exists>fm t2 bm bd isMatch.
           newFaceMatcher ext d2 = Inr fm \<and>
           best_loop ext fm d1 (None, PosInf) = (t2, Inr (bm, bd)) \<and>
           js_less ext bd thr = ([], Inr isMatch) \<and>
           t = NewFaceMatcher d2 # t2 \<and>
           r = comparison isMatch bd thr (length d1) (length d2)"
proof -
  obtain fm where fm: "newFaceMatcher ext d2 = Inr fm"
    using assms by (cases "newFaceMatcher ext d2") (auto simp: compare_detections_def)
  obtain t2 res where loop: "best_loop ext fm d1 (None, PosInf) = (t2, res)"
    by (cases "best_loop ext fm d1 (None, PosInf)")
  obtain bm bd where res: "res = Inr (bm, bd)"
    using assms fm loop by (cases res) (auto simp: compare_detections_def)
  obtain lt where lt: "js_less ext bd thr = ([], lt)"
    by (cases "js_less ext bd thr") (use js_less_trace [of ext bd thr] in auto)
  obtain isMatch where isMatch: "lt = Inr isMatch"
    using assms fm loop res lt by (cases lt) (auto simp: compare_detections_def)
  show ?thesis
    using assms fm loop res lt isMatch
    by (auto simp: compare_detections_def io_return_def)
qed

lemma compare_detections_run:
  assumes "d1 \<noteq> []" and "d2 \<noteq> []" and "newFaceMatcher ext d2 = Inr fm"
    and "best_loop ext fm d1 (None, PosInf) = (t2, Inr (bm, bd))"
    and "js_less ext bd thr = ([], Inr isMatch)"
  shows "compare_detections ext thr d1 d2 =
           (NewFaceMatcher d2 # t2,
            Inr (comparison isMatch bd thr (length d1) (length d2)))"
  using assms by (simp add: compare_detections_def io_return_def)

lemma handler_eq:
  "handler v = compare_faces (loadImage v) (field1 v) (field2 v) (missing v)"
  by (cases v) (simp_all add: compare_faces_A_def compare_faces_B_def)

lemma compare_faces_ready:
  "truthy (get_prop b f1) \<Longrightarrow> truthy (get_prop b f2) \<Longrightarrow>
     compare_faces L f1 f2 msg ext True b =
       (case io_bind (detect_both L ext (get_prop b f1) (get_prop b f2))
               (\<lambda>(d1, d2). compare_detections ext
                  (with_default (JNum (Fin lit_0_6)) (get_prop b ''threshold'')) d1 d2) of
          (t, Inr res) \<Rightarrow> (t, res)
        | (t, Inl e) \<Rightarrow>
            (t, server_error e))"
  by (simp add: compare_faces_def Let_def)

lemma compare_faces_detected:
  assumes "truthy (get_prop b f1)" and "truthy (get_prop b f2)"
    and "detect_both L ext (get_prop b f1) (get_prop b f2) = (t1, Inr (d1, d2))"
  shows "compare_faces L f1 f2 msg ext True b =
       (case compare_detections ext
                  (with_default (JNum (Fin lit_0_6)) (get_prop b ''threshold'')) d1 d2 of
          (t2, Inr res) \<Rightarrow> (t1 @ t2, res)
        | (t2, Inl e) \<Rightarrow>
            (t1 @ t2, server_error e))"
  using assms by (simp add: compare_faces_ready split: prod.splits sum.splits)

lemma compare_faces_200:
  assumes run: "compare_faces L f1 f2 msg ext ml b = (t, r)" and ok: "status r = 200"
  shows "\<exists>t1 d1 d2.
           ml \<and> truthy (get_prop b f1) \<and> truthy (get_prop b f2) \<and>
           detect_both L ext (get_prop b f1) (get_prop b f2) = (t1, Inr (d1, d2)) \<and>
           d1 \<noteq> [] \<and> d2 \<noteq> [] \<and>
           (\<exists>t2. compare_detections ext
              (with_default (JNum (Fin lit_0_6)) (get_prop b ''threshold'')) d1 d2 = (t2, Inr r)
              \<and> t = t1 @ t2)"
proof -
  let ?thr = "with_default (JNum (Fin lit_0_6)) (get_prop b ''threshold'')"
  from run ok have ml: ml
    by (auto simp: compare_faces_def models_loading_def split: if_splits)
  from run ok ml have tr: "truthy (get_prop b f1)" "truthy (get_prop b f2)"
    by (auto simp: compare_faces_def Let_def missing_field_def split: if_splits)
  obtain t1 res where det: "detect_both L ext (get_prop b f1) (get_prop b f2) = (t1, res)"
    by (cases "detect_both L ext (get_prop b f1) (get_prop b f2)")
  from run ok ml tr det obtain d1 d2 where res: "res = Inr (d1, d2)"
    by (cases res) (auto simp: compare_faces_ready server_error_def)
  obtain t2 out where cd: "compare_detections ext ?thr d1 d2 = (t2, out)"
    by (cases "compare_detections ext ?thr d1 d2")
  from run ok ml tr det res cd have out: "out = Inr r" and t: "t = t1 @ t2"
    by (cases out; auto simp: compare_faces_detected server_error_def)+
  have ne: "d1 \<noteq> [] \<and> d2 \<noteq> []"
  proof (rule ccontr)
    assume "\<not> (d1 \<noteq> [] \<and> d2 \<noteq> [])"
    then have "d1 = [] \<or> d2 = []" by blast
    from compare_detections_empty [OF this, of ext ?thr] cd out ok show False by (simp add: no_face_def)
  qed
  show ?thesis using ml tr det res cd out t ne by blast
qed

lemma compare_detections_outcomes:
  "compare_detections ext thr d1 d2 = (t, Inr r) \<Longrightarrow>
     r = no_face \<or> (\<exists>m bd. r = comparison m bd thr (length d1) (length d2))"
  using compare_detections_empty [of d1 d2 ext thr] compare_detections_Inr [of ext thr d1 d2 t r]
  by (cases "d1 = [] \<or> d2 = []") auto

lemma compare_faces_outcomes:
  assumes "compare_faces L f1 f2 msg ext ml b = (t, r)"
  shows "r = models_loading \<or> r = missing_field msg \<or> (\<exists>e. r = server_error e) \<or>
         r = no_face \<or>
         (\<exists>m bd n1 n2. r = comparison m bd
            (with_default (JNum (Fin lit_0_6)) (get_prop b ''threshold'')) n1 n2)"
proof (cases "ml \<and> truthy (get_prop b f1) \<and> truthy (get_prop b f2)")
  case False
  with assms show ?thesis
    by (auto simp: compare_faces_def Let_def split: if_splits)
next
  case True
  let ?thr = "with_default (JNum (Fin lit_0_6)) (get_prop b ''threshold'')"
  obtain t1 res where det: "detect_both L ext (get_prop b f1) (get_prop b f2) = (t1, res)"
    by (cases "detect_both L ext (get_prop b f1) (get_prop b f2)")
  show ?thesis
  proof (cases res)
    case (Inl e)
    with assms True det show ?thesis by (auto simp: compare_faces_ready)
  next
    case (Inr ds)
    obtain d1 d2 where ds: "ds = (d1, d2)" by (cases ds)
    obtain t2 out where cd: "compare_detections ext ?thr d1 d2 = (t2, out)"
      by (cases "compare_detections ext ?thr d1 d2")
    show ?thesis
    proof (cases out)
      case (Inl e)
      with assms True det Inr ds cd show ?thesis by (auto simp: compare_faces_detected)
    next
      case (Inr r')
      with assms True det \<open>res = Inr ds\<close> ds cd have "r = r'"
        by (auto simp: compare_faces_detected)
      with compare_detections_outcomes [of ext ?thr d1 d2 t2 r'] cd Inr show ?thesis by blast
    qed
  qed
qed

lemma status_simps [simp]:
  "status models_loading = 503" "status (missing_field msg) = 400"
  "status (server_error e) = 500" "status no_face = 400"
  "status (comparison m bd thr n1 n2) = 200"
  by (simp_all add: models_loading_def missing_field_def server_error_def no_face_def
      comparison_def)

lemma payload_comparison [simp]:
  "res_match (payload (comparison m bd thr n1 n2)) = m"
  "res_distance (payload (comparison m bd thr n1 n2)) = bd"
  "res_threshold (payload (comparison m bd thr n1 n2)) = thr"
  "facesDetectedImage1 (payload (comparison m bd thr n1 n2)) = n1"
  "facesDetectedImage2 (payload (comparison m bd thr n1 n2)) = n2"
  by (simp_all add: comparison_def)

lemma payload_no_face [simp]: "res_match (payload no_face) = False"
  by (simp add: no_face_def)

lemma with_default_simps [simp]:
  "with_default d JUndefined = d"
  "v \<noteq> JUndefined \<Longrightarrow> with_default d v = v"
  by (cases v; simp add: with_default_def)+


text \<open>
  When the calls of the matcher succeed and the threshold converts to a number, the
  comparison is answered: the handler does reach the 200 response, and in no other case.
\<close>

lemma handler_answers:
  assumes "truthy (get_prop b (field1 v))" and "truthy (get_prop b (field2 v))"
    and "detect_both (loadImage v) ext (get_prop b (field1 v)) (get_prop b (field2 v)) =
           (t1, Inr (d1, d2))"
    and "d1 \<noteq> []" and "d2 \<noteq> []"
    and "newFaceMatcher ext d2 = Inr fm"
    and "map (\<lambda>d. findBestMatch ext fm (descriptor d)) d1 = map Inr ms"
    and "to_number ext (with_default (JNum (Fin lit_0_6)) (get_prop b ''threshold'')) = Inr y"
  shows "handler v ext True b =
           (t1 @ NewFaceMatcher d2 # map (\<lambda>d. FindBestMatch (descriptor d)) d1,
            comparison (num_lt (snd (best_of ms (None, PosInf))) y)
              (snd (best_of ms (None, PosInf)))
              (with_default (JNum (Fin lit_0_6)) (get_prop b ''threshold''))
              (length d1) (length d2))"
proof -
  let ?thr = "with_default (JNum (Fin lit_0_6)) (get_prop b ''threshold'')"
  obtain bm bd where best: "best_of ms (None, PosInf) = (bm, bd)"
    by (cases "best_of ms (None, PosInf)")
  from best_loop_run [OF assms(7), of "(None, PosInf)"] best
  have loop: "best_loop ext fm d1 (None, PosInf) =
                (map (\<lambda>d. FindBestMatch (descriptor d)) d1, Inr (bm, bd))"
    by simp
  have lt: "js_less ext bd ?thr = ([], Inr (num_lt bd y))"
    using assms(8) by (simp add: js_less_Inr)
  from compare_detections_run [OF assms(4,5,6) loop lt] assms(1,2,3) best
  show ?thesis
    by (simp add: handler_eq compare_faces_detected)
qed

lemma handler_200_iff:
  assumes "truthy (get_prop b (field1 v))" and "truthy (get_prop b (field2 v))"
    and "detect_both (loadImage v) ext (get_prop b (field1 v)) (get_prop b (field2 v)) =
           (t1, Inr (d1, d2))"
    and "d1 \<noteq> []" and "d2 \<noteq> []"
    and "handler v ext True b = (t, r)"
  shows "status r = 200 \<longleftrightarrow>
           (\<exists>fm ms y. newFaceMatcher ext d2 = Inr fm \<and>
              map (\<lambda>d. findBestMatch ext fm (descriptor d)) d1 = map Inr ms \<and>
              to_number ext (with_default (JNum (Fin lit_0_6)) (get_prop b ''threshold'')) = Inr y)"
proof
  let ?thr = "with_default (JNum (Fin lit_0_6)) (get_prop b ''threshold'')"
  assume ok: "status r = 200"
  from compare_faces_200 [OF assms(6) [unfolded handler_eq] ok] assms(3)
  obtain t2 where cd: "compare_detections ext ?thr d1 d2 = (t2, Inr r)" by auto
  from compare_detections_Inr [OF cd assms(4,5)]
  obtain fm t3 bm bd isMatch where fm: "newFaceMatcher ext d2 = Inr fm"
    and loop: "best_loop ext fm d1 (None, PosInf) = (t3, Inr (bm, bd))"
    and lt: "js_less ext bd ?thr = ([], Inr isMatch)"
    by blast
  from best_loop_Inr [OF loop] obtain ms where
    "map (\<lambda>d. findBestMatch ext fm (descriptor d)) d1 = map Inr ms" by blast
  moreover from lt obtain y where "to_number ext ?thr = Inr y" by (auto simp: js_less_Inr)
  ultimately show "\<exists>fm ms y. newFaceMatcher ext d2 = Inr fm \<and>
              map (\<lambda>d. findBestMatch ext fm (descriptor d)) d1 = map Inr ms \<and>
              to_number ext ?thr = Inr y"
    using fm by blast
next
  assume "\<exists>fm ms y. newFaceMatcher ext d2 = Inr fm \<and>
              map (\<lambda>d. findBestMatch ext fm (descriptor d)) d1 = map Inr ms \<and>
              to_number ext (with_default (JNum (Fin lit_0_6)) (get_prop b ''threshold'')) = Inr y"
  then obtain fm ms y where "newFaceMatcher ext d2 = Inr fm"
    "map (\<lambda>d. findBestMatch ext fm (descriptor d)) d1 = map Inr ms"
    "to_number ext (with_default (JNum (Fin lit_0_6)) (get_prop b ''threshold'')) = Inr y"
    by blast
  from handler_answers [OF assms(1-5) this] assms(6) show "status r = 200" by auto
qed

lemma to_number_threshold:
  "b ''threshold'' = None \<Longrightarrow>
     to_number ext (with_default (JNum (Fin lit_0_6)) (get_prop b ''threshold'')) =
       Inr (Fin lit_0_6)"
  "b ''threshold'' = Some (JNum n) \<Longrightarrow>
     to_number ext (with_default (JNum (Fin lit_0_6)) (get_prop b ''threshold'')) = Inr n"
  "b ''threshold'' = Some (JStr s) \<Longrightarrow>
     to_number ext (with_default (JNum (Fin lit_0_6)) (get_prop b ''threshold'')) =
       Inr (string_to_number ext s)"
  "b ''threshold'' = Some JNull \<Longrightarrow>
     to_number ext (with_default (JNum (Fin lit_0_6)) (get_prop b ''threshold'')) =
       Inr (Fin 0)"
  "b ''threshold'' = Some (JBool c) \<Longrightarrow>
     to_number ext (with_default (JNum (Fin lit_0_6)) (get_prop b ''threshold'')) =
       Inr (Fin (if c then 1 else 0))"
  by (simp_all add: get_prop_def to_number_def)

text \<open>The conversion of arrays and objects, on the shapes a body can hold.\<close>

lemma to_number_structured:
  "to_number ext (JArr []) = Inr (string_to_number ext [])"
  "to_number ext (JArr [JNum n]) = Inr (string_to_number ext (number_to_string ext n))"
  "to_number ext (JArr [JStr a, JNull, JArr [JStr c, JStr d]]) =
     Inr (string_to_number ext (a @ '','' @ '','' @ c @ '','' @ d))"
  "to_number ext (JObj []) = Inr (string_to_number ext ''[object Object]'')"
  "to_number ext (JObj [(''valueOf'', x)]) = Inr (string_to_number ext ''[object Object]'')"
  "to_number ext (JObj [(''toString'', x)]) =
     Inl (Error ''Cannot convert object to primitive value'')"
  "to_number ext (JArr [JObj [(''toString'', x)]]) =
     Inl (Error ''Cannot convert object to primitive value'')"
  by (simp_all add: to_number_def)


section \<open>What loadImage does with a source\<close>

lemma resolve_not_match: "is_resolve_event ev \<Longrightarrow> \<not> is_match_event ev \<and> \<not> is_detect_event ev"
  by (cases ev) simp_all

lemma to_image_events: "ev \<in> set (fst (to_image ext buf)) \<Longrightarrow> ev = Sharp buf"
  by (cases "sharp_resize ext buf") (auto simp: to_image_def io_return_def)

lemma io_bind_events:
  "ev \<in> set (fst (io_bind m f)) \<Longrightarrow>
     ev \<in> set (fst m) \<or> (\<exists>x. snd m = Inr x \<and> ev \<in> set (fst (f x)))"
  by (cases m; cases "snd m") auto

lemma not_data_if_http:
  "prefix ''http://'' s \<or> prefix ''https://'' s \<Longrightarrow> \<not> prefix ''data:image'' s"
  by (auto elim!: prefixE)

lemma loadImage_A_data:
  "prefix ''data:image'' s \<Longrightarrow>
     loadImage_A ext (JStr s) =
       after [LoadImage (JStr s)] (to_image ext (from_base64 ext (strip_data_prefix s)))"
  by (simp add: loadImage_A_def)

lemma loadImage_A_http:
  "prefix ''http://'' s \<or> prefix ''https://'' s \<Longrightarrow>
     loadImage_A ext (JStr s) =
       after [LoadImage (JStr s), Fetch s]
         (case fetch ext s of
            Inl e \<Rightarrow> io_throw e
          | Inr response \<Rightarrow>
              if ok response then io_bind (io_call ReadBody (arrayBuffer response)) (to_image ext)
              else io_throw (Error (''Failed to fetch image from URL: '' @ statusText response)))"
  using not_data_if_http [of s]
  by (cases "fetch ext s") (auto simp: loadImage_A_def io_throw_def)

lemma loadImage_A_path:
  "\<not> prefix ''data:image'' s \<Longrightarrow> \<not> prefix ''http://'' s \<Longrightarrow> \<not> prefix ''https://'' s \<Longrightarrow>
     loadImage_A ext (JStr s) =
       after [LoadImage (JStr s), ReadFile s]
         (case readFileSync ext s of
            Inl e \<Rightarrow> io_throw (Error (''Failed to read local image file: '' @ message e))
          | Inr buf \<Rightarrow> to_image ext buf)"
  by (cases "readFileSync ext s")
    (auto simp: loadImage_A_def io_throw_def io_catch_def io_call_def after_def)

lemma loadImage_B_http:
  "prefix ''http://'' s \<or> prefix ''https://'' s \<Longrightarrow>
     loadImage_B ext (JStr s) =
       after [LoadImage (JStr s), Fetch s]
         (case fetch ext s of
            Inl e \<Rightarrow> io_throw e
          | Inr response \<Rightarrow> io_bind (io_call ReadBody (arrayBuffer response)) (to_image ext))"
  by (cases "fetch ext s") (auto simp: loadImage_B_def io_throw_def)

lemma loadImage_B_path:
  "\<not> prefix ''http://'' s \<Longrightarrow> \<not> prefix ''https://'' s \<Longrightarrow>
     loadImage_B ext (JStr s) =
       after [LoadImage (JStr s), ReadFile s]
         (case readFileSync ext s of Inl e \<Rightarrow> io_throw e | Inr buf \<Rightarrow> to_image ext buf)"
  by (cases "readFileSync ext s") (auto simp: loadImage_B_def io_throw_def)

lemma loadImage_not_string:
  "\<forall>s. x \<noteq> JStr s \<Longrightarrow>
     loadImage_A ext x = ([LoadImage x], Inl (Error ''imageSource.startsWith is not a function'')) \<and>
     loadImage_B ext x = ([LoadImage x], Inl (Error ''imagePath.startsWith is not a function''))"
  by (cases x) (simp_all add: loadImage_A_def loadImage_B_def io_throw_def)

lemma body_events:
  "ev \<in> set (fst (io_bind (io_call ReadBody r) (to_image ext))) \<Longrightarrow> is_resolve_event ev"
  by (cases r) (auto dest: to_image_events)

lemma loadImage_A_events:
  assumes "ev \<in> set (fst (loadImage_A ext x))"
  shows "is_resolve_event ev"
proof (cases x)
  case (JStr s)
  consider "prefix ''data:image'' s"
    | "prefix ''http://'' s \<or> prefix ''https://'' s"
    | "\<not> prefix ''data:image'' s" "\<not> prefix ''http://'' s" "\<not> prefix ''https://'' s"
    by blast
  then show ?thesis
  proof cases
    case 1
    with assms JStr show ?thesis
      by (auto simp: loadImage_A_data dest: to_image_events)
  next
    case 2
    with assms JStr show ?thesis
      by (cases "fetch ext s")
        (auto simp: loadImage_A_http io_throw_def dest: body_events split: if_splits)
  next
    case 3
    with assms JStr show ?thesis
      by (cases "readFileSync ext s")
        (auto simp: loadImage_A_path io_throw_def dest: to_image_events)
  qed
qed (use assms loadImage_not_string [of x ext] in auto)

lemma loadImage_B_events:
  assumes "ev \<in> set (fst (loadImage_B ext x))"
  shows "is_resolve_event ev"
proof (cases x)
  case (JStr s)
  show ?thesis
  proof (cases "prefix ''http://'' s \<or> prefix ''https://'' s")
    case True
    with assms JStr show ?thesis
      by (cases "fetch ext s")
        (auto simp: loadImage_B_http io_throw_def dest: body_events)
  next
    case False
    with assms JStr show ?thesis
      by (cases "readFileSync ext s")
        (auto simp: loadImage_B_path io_throw_def dest: to_image_events)
  qed
qed (use assms loadImage_not_string [of x ext] in auto)

lemma loadImage_events: "ev \<in> set (fst (loadImage v ext x)) \<Longrightarrow> is_resolve_event ev"
  by (cases v) (auto dest: loadImage_A_events loadImage_B_events)

lemma detect_both_trace:
  assumes "detect_both L ext x y = (t1, Inr (d1, d2))"
  shows "\<exists>img1 img2. t1 = fst (L ext x) @ fst (L ext y) @
           [DetectAllFaces img1, DetectAllFaces img2]"
proof -
  obtain ta ra where a: "L ext x = (ta, ra)" by (cases "L ext x")
  obtain tb rb where b: "L ext y = (tb, rb)" by (cases "L ext y")
  from assms a obtain img1 where ra: "ra = Inr img1"
    by (cases ra) (auto simp: detect_both_def)
  from assms a b ra obtain img2 where rb: "rb = Inr img2"
    by (cases rb) (auto simp: detect_both_def)
  from assms a b ra rb show ?thesis
    by (cases "detectAllFaces ext img1"; cases "detectAllFaces ext img2")
      (auto simp: detect_both_def io_return_def)
qed

lemma loadImage_A_rejects_failed_fetch:
  assumes "prefix ''http://'' s \<or> prefix ''https://'' s"
    and "fetch ext s = Inr response" and "\<not> ok response"
  shows "loadImage_A ext (JStr s) =
           ([LoadImage (JStr s), Fetch s],
            Inl (Error (''Failed to fetch image from URL: '' @ statusText response)))"
  using assms by (simp add: loadImage_A_http io_throw_def)

lemma failed_fetch_fails_request_A:
  assumes "req_body ''image1'' = Some (JStr s)" and "truthy (get_prop req_body ''image2'')"
    and "prefix ''http://'' s \<or> prefix ''https://'' s"
    and "fetch ext s = Inr response" and "\<not> ok response"
  shows "handler VariantA ext True req_body =
           ([LoadImage (JStr s), Fetch s],
            server_error (Error (''Failed to fetch image from URL: '' @ statusText response)))"
proof -
  from assms(3) have "s \<noteq> []" by auto
  with assms(1,2) have tr: "truthy (get_prop req_body ''image1'')" "get_prop req_body ''image1'' = JStr s"
    by (simp_all add: get_prop_def)
  have "detect_both loadImage_A ext (JStr s) (get_prop req_body ''image2'') =
          ([LoadImage (JStr s), Fetch s],
           Inl (Error (''Failed to fetch image from URL: '' @ statusText response)))"
    by (simp add: detect_both_def loadImage_A_rejects_failed_fetch [OF assms(3,4,5)])
  with tr assms(2) show ?thesis
    by (simp add: compare_faces_A_def compare_faces_ready)
qed


section \<open>The server once started\<close>

lemma all_nets: "(\<forall>n. P n) \<longleftrightarrow> P SsdMobilenetv1 \<and> P FaceLandmark68Net \<and> P FaceRecognitionNet"
  by (metis net.exhaust)

lemma start_serving:
  "listening (start w) \<and> exit_code (start w) = None \<longleftrightarrow>
     (\<forall>n. loadFromDisk w n = Inr ()) \<and> listen w = Inr ()"
  by (auto simp: all_nets start_def loadModels_def launched_def Let_def split: sum.splits)

lemma listening_loaded: "listening (start w) \<Longrightarrow> modelsLoaded (start w)"
  by (auto simp: start_def loadModels_def launched_def Let_def split: sum.splits if_splits)

lemma serve_start:
  "serve v ext (start w) req_body =
     (if (\<forall>n. loadFromDisk w n = Inr ()) \<and> listen w = Inr ()
      then Some (handler v ext True req_body) else None)"
  using start_serving [of w] listening_loaded [of w]
  by (auto simp: serve_def)

lemma handler_missing_field:
  assumes "req_body (field1 v) = None \<or> req_body (field2 v) = None"
  shows "handler v ext True req_body = ([], missing_field (missing v))"
  using assms
  by (auto simp: handler_eq compare_faces_def Let_def get_prop_def)

lemma handler_falsy_field:
  assumes "(\<exists>x. req_body (field1 v) = Some x \<and> \<not> truthy x) \<or>
           (\<exists>x. req_body (field2 v) = Some x \<and> \<not> truthy x)"
  shows "handler v ext True req_body = ([], missing_field (missing v))"
  using assms
  by (auto simp: handler_eq compare_faces_def Let_def get_prop_def)


section \<open>Runs in the small world\<close>

lemmas demo_defs = demo_ext_def demo_body_def demo_findBestMatch_def l1_dist_def
  loadImage_A_def loadImage_B_def to_image_def io_call_def io_return_def io_throw_def
  io_catch_def after_def strip_data_prefix_def get_prop_def with_threshold_def
  empty_body_def demo_calls_def demo_label_def

lemmas handler_defs = compare_faces_A_def compare_faces_B_def compare_faces_def
  detect_both_def compare_detections_def js_less_def to_number_def with_default_def Let_def

lemma demo_detect:
  "detect_both (loadImage v) demo_ext (JStr ''ann.jpg'') (JStr ''duo.jpg'') =
     (demo_calls ''duo.jpg'' [1, 9],
      Inr ([Detection [3 / 10], Detection [7 / 10]], [Detection [1 / 10], Detection [9 / 10]]))"
  by (cases v) (simp_all add: detect_both_def demo_defs)

lemma demo_detect_sky:
  "detect_both (loadImage v) demo_ext (JStr ''ann.jpg'') (JStr ''sky.jpg'') =
     (demo_calls ''sky.jpg'' [0], Inr ([Detection [3 / 10], Detection [7 / 10]], []))"
  by (cases v) (simp_all add: detect_both_def demo_defs)

lemma demo_matches:
  "map (\<lambda>d. findBestMatch demo_ext (FaceMatcher [Detection [1 / 10], Detection [9 / 10]])
              (descriptor d))
     [Detection [3 / 10], Detection [7 / 10]] =
   map Inr [FaceMatch ''person I'' (Fin (1 / 5)), FaceMatch ''person II'' (Fin (1 / 5))]"
  by (simp add: demo_defs numeral_2_eq_2)

lemma demo_run:
  "handler v demo_ext True (demo_body v ''ann.jpg'' ''duo.jpg'') =
     (demo_calls ''duo.jpg'' [1, 9] @
      [NewFaceMatcher [Detection [1 / 10], Detection [9 / 10]],
       FindBestMatch [3 / 10], FindBestMatch [7 / 10]],
      comparison True (Fin (1 / 5)) (JNum (Fin lit_0_6)) 2 2)"
  by (cases v) (simp_all add: handler_defs demo_defs lit_0_6_def numeral_2_eq_2)

lemma demo_run_zero:
  "handler v demo_ext True
     (with_threshold (demo_body v ''ann.jpg'' ''duo.jpg'') (JNum (Fin 0))) =
     (demo_calls ''duo.jpg'' [1, 9] @
      [NewFaceMatcher [Detection [1 / 10], Detection [9 / 10]],
       FindBestMatch [3 / 10], FindBestMatch [7 / 10]],
      comparison False (Fin (1 / 5)) (JNum (Fin 0)) 2 2)"
  by (cases v) (simp_all add: handler_defs demo_defs numeral_2_eq_2)

lemma demo_run_quarter:
  "handler v demo_ext True
     (with_threshold (demo_body v ''ann.jpg'' ''duo.jpg'') (JStr ''0.25'')) =
     (demo_calls ''duo.jpg'' [1, 9] @
      [NewFaceMatcher [Detection [1 / 10], Detection [9 / 10]],
       FindBestMatch [3 / 10], FindBestMatch [7 / 10]],
      comparison True (Fin (1 / 5)) (JStr ''0.25'') 2 2)"
  by (cases v) (simp_all add: handler_defs demo_defs numeral_2_eq_2)

lemma demo_matcher:
  "newFaceMatcher demo_ext [Detection [1 / 10], Detection [9 / 10]] =
     Inr (FaceMatcher [Detection [1 / 10], Detection [9 / 10]])"
  by (simp add: demo_ext_def)

lemma l1_dist_nonneg: "0 \<le> l1_dist q d"
  unfolding l1_dist_def by (rule sum_list_nonneg) auto

lemma nearest_nonneg:
  "\<not> num_lt (distance best) (Fin 0) \<Longrightarrow> \<not> num_lt (distance (nearest q ds k best)) (Fin 0)"
  by (induction q ds k best rule: nearest.induct) (auto simp: l1_dist_nonneg not_less)

lemma demo_nonneg:
  "findBestMatch demo_ext fm q = Inr m \<Longrightarrow> \<not> num_lt (distance m) (Fin 0)"
proof (cases fm)
  case (FaceMatcher ds)
  assume run: "findBestMatch demo_ext fm q = Inr m"
  with FaceMatcher obtain d rest where ds: "ds = d # rest"
    by (cases ds) (auto simp: demo_ext_def demo_findBestMatch_def)
  have "\<not> num_lt (distance (FaceMatch (demo_label 1) (Fin (l1_dist q (descriptor d))))) (Fin 0)"
    using l1_dist_nonneg [of q "descriptor d"] by (simp add: not_less)
  from nearest_nonneg [OF this, of q rest 2] run FaceMatcher ds show ?thesis
    by (simp add: demo_ext_def demo_findBestMatch_def)
qed


section \<open>The test of the models-loaded flag\<close>

text \<open>
  C4.  A comparison request handled while the models-loaded flag is false is answered
  with status 503 and the fixed message, in either file, and the handler makes no call
  at all for it: in particular the detection pipeline is not invoked.
\<close>

theorem loading_rejects_with_503:
  "handler v ext False req_body = ([], models_loading) \<and>
   status models_loading = 503 \<and>
   payload models_loading = ErrorBody ''Models are still loading. Please try again shortly.''"
  by (cases v)
    (simp_all add: compare_faces_A_def compare_faces_B_def compare_faces_def models_loading_def)


section \<open>Missing and falsy image fields\<close>

text \<open>
  C8.  A request whose body lacks the first or the second image field is answered
  with status 400 and the fixed error payload of the file, whatever the other fields of
  the body are, and the handler makes no call for it.  This holds of every request the
  server handles: the server listens only when the three networks have loaded and the
  port is bound, and by then the models-loaded flag is set; when the start fails the
  process has exited and no request is answered at all.
\<close>

theorem missing_field_answered_400:
  assumes "req_body (field1 v) = None \<or> req_body (field2 v) = None"
  shows "serve v ext (start w) req_body =
           (if (\<forall>n. loadFromDisk w n = Inr ()) \<and> listen w = Inr ()
            then Some ([], missing_field (missing v)) else None) \<and>
         status (missing_field (missing v)) = 400 \<and>
         payload (missing_field (missing v)) = ErrorBody (missing v)"
  using handler_missing_field [OF assms, of ext]
  by (simp add: serve_start missing_field_def)

theorem missing_field_answered_400_witness:
  "serve VariantA demo_ext (start demo_startup)
     (with_threshold [''image2'' \<mapsto> JStr ''duo.jpg''] (JNum (Fin 1))) =
     Some ([], missing_field missing_A) \<and>
   serve VariantB demo_ext (start demo_startup)
     (with_threshold [''image1Path'' \<mapsto> JStr ''duo.jpg''] (JStr ''0.25'')) =
     Some ([], missing_field missing_B) \<and>
   status (missing_field missing_A) = 400 \<and> status (missing_field missing_B) = 400"
proof -
  let ?a = "with_threshold [''image2'' \<mapsto> JStr ''duo.jpg''] (JNum (Fin 1))"
  let ?b = "with_threshold [''image1Path'' \<mapsto> JStr ''duo.jpg''] (JStr ''0.25'')"
  have ha: "?a (field1 VariantA) = None \<or> ?a (field2 VariantA) = None"
    by (simp add: with_threshold_def)
  have hb: "?b (field1 VariantB) = None \<or> ?b (field2 VariantB) = None"
    by (simp add: with_threshold_def)
  have up: "(\<forall>n. loadFromDisk demo_startup n = Inr ()) \<and> listen demo_startup = Inr ()"
    by (simp add: demo_startup_def)
  from missing_field_answered_400 [OF ha, of demo_ext demo_startup]
       missing_field_answered_400 [OF hb, of demo_ext demo_startup] up
  show ?thesis by (simp only: missing.simps if_True simp_thms)
qed

text \<open>
  C10.  A request in which the first or the second image field is present with a falsy
  value (the empty string, \<open>null\<close>, \<open>false\<close>, 0, NaN) is answered, by the server once
  started, with status 400 and the same payload as a request with an empty body, and
  the handler makes no call for it: no image is resolved and nothing is detected.
\<close>

theorem falsy_field_answered_400:
  assumes "(\<exists>x. req_body (field1 v) = Some x \<and> \<not> truthy x) \<or>
           (\<exists>x. req_body (field2 v) = Some x \<and> \<not> truthy x)"
  shows "serve v ext (start w) req_body =
           (if (\<forall>n. loadFromDisk w n = Inr ()) \<and> listen w = Inr ()
            then Some ([], missing_field (missing v)) else None) \<and>
         serve v ext (start w) req_body = serve v ext (start w) Map.empty \<and>
         status (missing_field (missing v)) = 400"
proof -
  from handler_falsy_field [OF assms, of ext] handler_missing_field [of Map.empty v ext]
  show ?thesis by (simp add: serve_start)
qed

theorem falsy_field_answered_400_witness:
  "serve VariantB demo_ext (start demo_startup) (demo_body VariantB '''' ''duo.jpg'') =
     Some ([], missing_field missing_B) \<and>
   serve VariantA demo_ext (start demo_startup)
     [''image1'' \<mapsto> JStr ''duo.jpg'', ''image2'' \<mapsto> JNull] =
     Some ([], missing_field missing_A) \<and>
   serve VariantB demo_ext (start demo_startup) empty_body = Some ([], missing_field missing_B)"
proof -
  let ?b = "demo_body VariantB '''' ''duo.jpg''"
  let ?a = "[''image1'' \<mapsto> JStr ''duo.jpg'', ''image2'' \<mapsto> JNull]"
  have hb: "(\<exists>x. ?b (field1 VariantB) = Some x \<and> \<not> truthy x) \<or>
            (\<exists>x. ?b (field2 VariantB) = Some x \<and> \<not> truthy x)"
    by (simp add: demo_body_def)
  have ha: "(\<exists>x. ?a (field1 VariantA) = Some x \<and> \<not> truthy x) \<or>
            (\<exists>x. ?a (field2 VariantA) = Some x \<and> \<not> truthy x)"
    by simp
  have up: "(\<forall>n. loadFromDisk demo_startup n = Inr ()) \<and> listen demo_startup = Inr ()"
    by (simp add: demo_startup_def)
  note fb = falsy_field_answered_400 [OF hb, of demo_ext demo_startup]
  from fb up
  have b: "serve VariantB demo_ext (start demo_startup) ?b =
             Some ([], missing_field (missing VariantB))"
    by (simp only: if_True simp_thms)
  from fb
  have e: "serve VariantB demo_ext (start demo_startup) ?b =
             serve VariantB demo_ext (start demo_startup) Map.empty"
    by blast
  from falsy_field_answered_400 [OF ha, of demo_ext demo_startup] up
  have a: "serve VariantA demo_ext (start demo_startup) ?a =
             Some ([], missing_field (missing VariantA))"
    by (simp only: if_True simp_thms)
  from a b e show ?thesis by (simp add: empty_body_def)
qed


section \<open>Resolving an image source\<close>

text \<open>
  C5.  In the small world the URL \<open>http://img.test/gone.jpg\<close> is answered with a
  non-success status, the status text \<open>Not Found\<close> and a body.  The \<open>loadImage\<close> of
  the second file (fields \<open>image1Path\<close>, \<open>image2Path\<close>) does not test the status: it
  reads the body, hands it to the decoder and returns an image.  The \<open>loadImage\<close> of the
  first file, on the same source, throws the error that carries the status text, and
  neither reads the body nor decodes.
\<close>

theorem loadImage_B_decodes_body_of_failed_fetch:
  "fetch demo_ext ''http://img.test/gone.jpg'' = Inr (Response False ''Not Found'' (Inr [9])) \<and>
   loadImage_B demo_ext (JStr ''http://img.test/gone.jpg'') =
     ([LoadImage (JStr ''http://img.test/gone.jpg''), Fetch ''http://img.test/gone.jpg'',
       ReadBody, Sharp [9]],
      Inr (Image [9])) \<and>
   loadImage_A demo_ext (JStr ''http://img.test/gone.jpg'') =
     ([LoadImage (JStr ''http://img.test/gone.jpg''), Fetch ''http://img.test/gone.jpg''],
      Inl (Error ''Failed to fetch image from URL: Not Found''))"
  by (simp add: demo_defs)

text \<open>
  C6, as amended.  In the first file: a source that begins with
  \<open>data:image/png;base64,\<close>, \<open>data:image/jpeg;base64,\<close> or \<open>data:image/jpg;base64,\<close> is
  base64-decoded after that prefix is removed, and the bytes go to the decoder; a source
  that begins with \<open>http://\<close> or \<open>https://\<close> is fetched; a source that begins with
  neither of these nor with \<open>data:image\<close> is read as a local file, and a failure of the
  read becomes the error \<open>Failed to read local image file: \<close> followed by the message
  of the I/O error.  In the second file there is no case for embedded data: a source
  that begins with \<open>http://\<close> or \<open>https://\<close> is fetched, and every other source is read
  as a local file, a failure of the read being thrown as it is.
\<close>

theorem loadImage_dispatch:
  "(p \<in> {''data:image/png;base64,'', ''data:image/jpeg;base64,'', ''data:image/jpg;base64,''} \<longrightarrow>
      loadImage_A ext (JStr (p @ rest)) =
        after [LoadImage (JStr (p @ rest))] (to_image ext (from_base64 ext rest))) \<and>
   (prefix ''http://'' s \<or> prefix ''https://'' s \<longrightarrow>
      prefix [LoadImage (JStr s), Fetch s] (fst (loadImage_A ext (JStr s)))) \<and>
   (\<not> prefix ''data:image'' s \<and> \<not> prefix ''http://'' s \<and> \<not> prefix ''https://'' s \<longrightarrow>
      loadImage_A ext (JStr s) =
        after [LoadImage (JStr s), ReadFile s]
          (case readFileSync ext s of
             Inl e \<Rightarrow> io_throw (Error (''Failed to read local image file: '' @ message e))
           | Inr buf \<Rightarrow> to_image ext buf)) \<and>
   (prefix ''http://'' s \<or> prefix ''https://'' s \<longrightarrow>
      prefix [LoadImage (JStr s), Fetch s] (fst (loadImage_B ext (JStr s)))) \<and>
   (\<not> prefix ''http://'' s \<and> \<not> prefix ''https://'' s \<longrightarrow>
      loadImage_B ext (JStr s) =
        after [LoadImage (JStr s), ReadFile s]
          (case readFileSync ext s of Inl e \<Rightarrow> io_throw e | Inr buf \<Rightarrow> to_image ext buf))"
proof -
  have a1: "loadImage_A ext (JStr (p @ rest)) =
        after [LoadImage (JStr (p @ rest))] (to_image ext (from_base64 ext rest))"
    if "p \<in> {''data:image/png;base64,'', ''data:image/jpeg;base64,'', ''data:image/jpg;base64,''}"
  proof -
    from that have pre: "prefix ''data:image'' (p @ rest)" by auto
    from that have "strip_data_prefix (p @ rest) = rest"
      by (auto simp: strip_data_prefix_def)
    with loadImage_A_data [OF pre, of ext] show ?thesis by simp
  qed
  have a2: "prefix [LoadImage (JStr s), Fetch s] (fst (loadImage_A ext (JStr s)))"
    if "prefix ''http://'' s \<or> prefix ''https://'' s"
    using loadImage_A_http [OF that, of ext] by simp
  have b2: "prefix [LoadImage (JStr s), Fetch s] (fst (loadImage_B ext (JStr s)))"
    if "prefix ''http://'' s \<or> prefix ''https://'' s"
    using loadImage_B_http [OF that, of ext] by simp
  from a1 a2 b2 loadImage_A_path [of s ext] loadImage_B_path [of s ext]
  show ?thesis by blast
qed

theorem loadImage_dispatch_witness:
  "loadImage_A demo_ext (JStr ''data:image/jpeg;base64,AAAA'') =
     ([LoadImage (JStr ''data:image/jpeg;base64,AAAA''), Sharp [65, 65, 65, 65]],
      Inr (Image [65, 65, 65, 65])) \<and>
   prefix [LoadImage (JStr ''https://img.test/ann.jpg''), Fetch ''https://img.test/ann.jpg'']
     (fst (loadImage_A demo_ext (JStr ''https://img.test/ann.jpg''))) \<and>
   prefix [LoadImage (JStr ''https://img.test/ann.jpg''), Fetch ''https://img.test/ann.jpg'']
     (fst (loadImage_B demo_ext (JStr ''https://img.test/ann.jpg''))) \<and>
   loadImage_A demo_ext (JStr ''nowhere.jpg'') =
     ([LoadImage (JStr ''nowhere.jpg''), ReadFile ''nowhere.jpg''],
      Inl (Error ''Failed to read local image file: ENOENT: no such file or directory'')) \<and>
   loadImage_B demo_ext (JStr ''nowhere.jpg'') =
     ([LoadImage (JStr ''nowhere.jpg''), ReadFile ''nowhere.jpg''],
      Inl (Error ''ENOENT: no such file or directory''))"
proof -
  note web = loadImage_dispatch [of "''data:image/jpeg;base64,''" demo_ext "''AAAA''"
      "''https://img.test/ann.jpg''"]
  note loc = loadImage_dispatch [of "''data:image/jpeg;base64,''" demo_ext "''AAAA''"
      "''nowhere.jpg''"]
  have p: "''data:image/jpeg;base64,'' \<in>
     {''data:image/png;base64,'', ''data:image/jpeg;base64,'', ''data:image/jpg;base64,''}"
    by simp
  have h: "prefix ''http://'' ''https://img.test/ann.jpg'' \<or>
           prefix ''https://'' ''https://img.test/ann.jpg''" by simp
  have n: "\<not> prefix ''data:image'' ''nowhere.jpg'' \<and> \<not> prefix ''http://'' ''nowhere.jpg'' \<and>
           \<not> prefix ''https://'' ''nowhere.jpg''" by simp
  from web p have data: "loadImage_A demo_ext (JStr (''data:image/jpeg;base64,'' @ ''AAAA'')) =
      after [LoadImage (JStr (''data:image/jpeg;base64,'' @ ''AAAA''))]
        (to_image demo_ext (from_base64 demo_ext ''AAAA''))" by blast
  from web h have web2:
    "prefix [LoadImage (JStr ''https://img.test/ann.jpg''), Fetch ''https://img.test/ann.jpg'']
       (fst (loadImage_A demo_ext (JStr ''https://img.test/ann.jpg'')))"
    "prefix [LoadImage (JStr ''https://img.test/ann.jpg''), Fetch ''https://img.test/ann.jpg'']
       (fst (loadImage_B demo_ext (JStr ''https://img.test/ann.jpg'')))" by blast+
  from loc n have pathA: "loadImage_A demo_ext (JStr ''nowhere.jpg'') =
        after [LoadImage (JStr ''nowhere.jpg''), ReadFile ''nowhere.jpg'']
          (case readFileSync demo_ext ''nowhere.jpg'' of
             Inl e \<Rightarrow> io_throw (Error (''Failed to read local image file: '' @ message e))
           | Inr buf \<Rightarrow> to_image demo_ext buf)"
    and pathB: "loadImage_B demo_ext (JStr ''nowhere.jpg'') =
        after [LoadImage (JStr ''nowhere.jpg''), ReadFile ''nowhere.jpg'']
          (case readFileSync demo_ext ''nowhere.jpg'' of
             Inl e \<Rightarrow> io_throw e | Inr buf \<Rightarrow> to_image demo_ext buf)" by blast+
  have rd: "readFileSync demo_ext ''nowhere.jpg'' = Inl (Error ''ENOENT: no such file or directory'')"
    by (simp add: demo_ext_def)
  have dec: "to_image demo_ext (from_base64 demo_ext ''AAAA'') =
      ([Sharp [65, 65, 65, 65]], Inr (Image [65, 65, 65, 65]))"
    by (simp add: demo_ext_def to_image_def io_call_def io_return_def after_def)
  from data dec have data': "loadImage_A demo_ext (JStr ''data:image/jpeg;base64,AAAA'') =
     ([LoadImage (JStr ''data:image/jpeg;base64,AAAA''), Sharp [65, 65, 65, 65]],
      Inr (Image [65, 65, 65, 65]))" by simp
  from pathA rd have pathA': "loadImage_A demo_ext (JStr ''nowhere.jpg'') =
     ([LoadImage (JStr ''nowhere.jpg''), ReadFile ''nowhere.jpg''],
      Inl (Error ''Failed to read local image file: ENOENT: no such file or directory''))"
    by (simp add: io_throw_def)
  from pathB rd have pathB': "loadImage_B demo_ext (JStr ''nowhere.jpg'') =
     ([LoadImage (JStr ''nowhere.jpg''), ReadFile ''nowhere.jpg''],
      Inl (Error ''ENOENT: no such file or directory''))"
    by (simp add: io_throw_def)
  from data' web2 pathA' pathB' show ?thesis by blast
qed

text \<open>
  The dispatch as first stated fails in both files.  In the second file a source that
  begins with \<open>data:image/png;base64,\<close> is read as a local file.  In the first file a
  source that begins with \<open>data:image/gif;base64,\<close>, which is none of the three
  prefixes that are removed and not a URL, is not read as a local file: the whole string
  is base64-decoded.
\<close>

theorem loadImage_dispatch_counterexample:
  "prefix ''data:image/png;base64,'' ''data:image/png;base64,AAAA'' \<and>
   loadImage_B demo_ext (JStr ''data:image/png;base64,AAAA'') =
     ([LoadImage (JStr ''data:image/png;base64,AAAA''), ReadFile ''data:image/png;base64,AAAA''],
      Inl (Error ''ENOENT: no such file or directory'')) \<and>
   \<not> prefix ''data:image/png;base64,'' ''data:image/gif;base64,AAAA'' \<and>
   \<not> prefix ''data:image/jpeg;base64,'' ''data:image/gif;base64,AAAA'' \<and>
   \<not> prefix ''data:image/jpg;base64,'' ''data:image/gif;base64,AAAA'' \<and>
   \<not> prefix ''http://'' ''data:image/gif;base64,AAAA'' \<and>
   \<not> prefix ''https://'' ''data:image/gif;base64,AAAA'' \<and>
   fst (loadImage_A demo_ext (JStr ''data:image/gif;base64,AAAA'')) =
     [LoadImage (JStr ''data:image/gif;base64,AAAA''),
      Sharp (from_base64 demo_ext ''data:image/gif;base64,AAAA'')]"
  by (simp add: demo_defs)


section \<open>From the detections to the response\<close>

lemma demo_fields:
  "get_prop (demo_body v a b) (field1 v) = JStr a"
  "get_prop (demo_body v a b) (field2 v) = JStr b"
  "get_prop (with_threshold (demo_body v a b) x) (field1 v) = JStr a"
  "get_prop (with_threshold (demo_body v a b) x) (field2 v) = JStr b"
  "get_prop (with_threshold bd x) ''threshold'' = x"
  "demo_body v a b ''threshold'' = None"
  by (cases v; simp add: demo_body_def get_prop_def with_threshold_def)+

text \<open>
  C3.  Take a request, to either file, whose two image fields are truthy and whose two
  images both yield a detection collection, at least one of them empty (the other may
  be empty or not).  The response is status 400 with \<open>match: false\<close>, and the calls made
  are those of resolving the images and detecting: the matcher is neither constructed
  nor queried.
\<close>
theorem no_face_400_without_matching:
  assumes "truthy (get_prop req_body (field1 v))" and "truthy (get_prop req_body (field2 v))"
    and "detect_both (loadImage v) ext (get_prop req_body (field1 v))
           (get_prop req_body (field2 v)) = (t1, Inr (d1, d2))"
    and "d1 = [] \<or> d2 = []"
  shows "handler v ext True req_body = (t1, no_face) \<and>
         status no_face = 400 \<and> res_match (payload no_face) = False \<and>
         (\<forall>ev\<in>set t1. \<not> is_match_event ev)"
proof -
  have run: "handler v ext True req_body = (t1, no_face)"
    using assms compare_detections_empty [OF assms(4)]
    by (simp add: handler_eq compare_faces_detected)
  from detect_both_trace [OF assms(3)] obtain img1 img2 where
    "t1 = fst (loadImage v ext (get_prop req_body (field1 v))) @
          fst (loadImage v ext (get_prop req_body (field2 v))) @
          [DetectAllFaces img1, DetectAllFaces img2]"
    by blast
  then have "\<forall>ev\<in>set t1. \<not> is_match_event ev"
    by (auto dest!: loadImage_events resolve_not_match)
  with run show ?thesis by simp
qed

theorem no_face_400_without_matching_witness:
  "handler VariantA demo_ext True (demo_body VariantA ''ann.jpg'' ''sky.jpg'') =
     (demo_calls ''sky.jpg'' [0], no_face) \<and>
   status no_face = 400 \<and> res_match (payload no_face) = False \<and>
   list_all (\<lambda>ev. \<not> is_match_event ev) (demo_calls ''sky.jpg'' [0])"
proof -
  let ?b = "demo_body VariantA ''ann.jpg'' ''sky.jpg''"
  have h1: "truthy (get_prop ?b (field1 VariantA))"
    by (simp add: demo_body_def get_prop_def)
  have h2: "truthy (get_prop ?b (field2 VariantA))"
    by (simp add: demo_body_def get_prop_def)
  have h3: "detect_both (loadImage VariantA) demo_ext (get_prop ?b (field1 VariantA))
              (get_prop ?b (field2 VariantA)) =
            (demo_calls ''sky.jpg'' [0],
             Inr ([Detection [3 / 10], Detection [7 / 10]], []))"
    using demo_detect_sky [of VariantA] by (simp only: demo_fields)
  have h4: "[Detection [3 / 10], Detection [7 / 10]] = [] \<or> ([] :: detection list) = []"
    by simp
  from no_face_400_without_matching [OF h1 h2 h3 h4] show ?thesis
    by (simp add: list_all_iff)
qed

text \<open>
  C1.  Take a request, to either file, whose two image fields are truthy and whose two
  images both yield a detection collection with at least one face.  The handler answers
  with status 200 exactly when the matcher can be built, answers every detection of the
  first image, and the threshold converts to a number (a threshold that is a number,
  a string, a boolean, \<open>null\<close> or an array always does).  In every such 200 response the
  threshold is reported as it was supplied, or as the double \<open>0.6\<close> when none was, and the
  match flag is true exactly when the reported distance is strictly less than the number
  the threshold converts to: \<open>0.6\<close> when the body has no threshold, the number itself
  when it is a number, what the language reads from the string when it is a string, 0
  when it is \<open>null\<close>, and 1 or 0 when it is \<open>true\<close> or \<open>false\<close>.
\<close>

theorem match_iff_distance_below_threshold:
  assumes "truthy (get_prop req_body (field1 v))" and "truthy (get_prop req_body (field2 v))"
    and "detect_both (loadImage v) ext (get_prop req_body (field1 v))
           (get_prop req_body (field2 v)) = (t1, Inr (d1, d2))"
    and "d1 \<noteq> []" and "d2 \<noteq> []"
    and "handler v ext True req_body = (t, r)"
  shows "(status r = 200 \<longleftrightarrow>
            (\<exists>fm ms y. newFaceMatcher ext d2 = Inr fm \<and>
               map (\<lambda>d. findBestMatch ext fm (descriptor d)) d1 = map Inr ms \<and>
               to_number ext
                 (with_default (JNum (Fin lit_0_6)) (get_prop req_body ''threshold'')) = Inr y)) \<and>
         (status r = 200 \<longrightarrow>
            res_threshold (payload r) =
              with_default (JNum (Fin lit_0_6)) (get_prop req_body ''threshold'') \<and>
            (\<exists>y. to_number ext (res_threshold (payload r)) = Inr y \<and>
                 (res_match (payload r) \<longleftrightarrow> num_lt (res_distance (payload r)) y))) \<and>
         (req_body ''threshold'' = None \<longrightarrow>
            to_number ext
              (with_default (JNum (Fin lit_0_6)) (get_prop req_body ''threshold'')) =
              Inr (Fin lit_0_6)) \<and>
         (\<forall>n. req_body ''threshold'' = Some (JNum n) \<longrightarrow>
            to_number ext
              (with_default (JNum (Fin lit_0_6)) (get_prop req_body ''threshold'')) = Inr n) \<and>
         (\<forall>s. req_body ''threshold'' = Some (JStr s) \<longrightarrow>
            to_number ext
              (with_default (JNum (Fin lit_0_6)) (get_prop req_body ''threshold'')) =
              Inr (string_to_number ext s)) \<and>
         (req_body ''threshold'' = Some JNull \<longrightarrow>
            to_number ext
              (with_default (JNum (Fin lit_0_6)) (get_prop req_body ''threshold'')) =
              Inr (Fin 0)) \<and>
         (\<forall>c. req_body ''threshold'' = Some (JBool c) \<longrightarrow>
            to_number ext
              (with_default (JNum (Fin lit_0_6)) (get_prop req_body ''threshold'')) =
              Inr (Fin (if c then 1 else 0)))"
proof -
  let ?thr = "with_default (JNum (Fin lit_0_6)) (get_prop req_body ''threshold'')"
  note iff = handler_200_iff [OF assms]
  have flag: "res_threshold (payload r) = ?thr \<and>
              (\<exists>y. to_number ext (res_threshold (payload r)) = Inr y \<and>
                   (res_match (payload r) \<longleftrightarrow> num_lt (res_distance (payload r)) y))"
    if ok: "status r = 200"
  proof -
    from compare_faces_200 [OF assms(6) [unfolded handler_eq] ok] assms(3)
    obtain t2 where cd: "compare_detections ext ?thr d1 d2 = (t2, Inr r)" by auto
    from compare_detections_Inr [OF cd assms(4,5)]
    obtain bd isMatch where lt: "js_less ext bd ?thr = ([], Inr isMatch)"
      and r: "r = comparison isMatch bd ?thr (length d1) (length d2)"
      by blast
    from lt obtain y where "to_number ext ?thr = Inr y" "isMatch = num_lt bd y"
      by (auto simp: js_less_Inr)
    with r show ?thesis by auto
  qed
  from iff flag to_number_threshold [where b = req_body and ext = ext] show ?thesis by blast
qed

theorem match_iff_distance_below_threshold_witness:
  "status (snd (handler VariantA demo_ext True (demo_body VariantA ''ann.jpg'' ''duo.jpg''))) = 200 \<and>
   res_threshold (payload (snd (handler VariantA demo_ext True
      (demo_body VariantA ''ann.jpg'' ''duo.jpg'')))) = JNum (Fin lit_0_6) \<and>
   res_match (payload (snd (handler VariantA demo_ext True
      (demo_body VariantA ''ann.jpg'' ''duo.jpg'')))) = num_lt (Fin (1 / 5)) (Fin lit_0_6) \<and>
   status (snd (handler VariantB demo_ext True
      (with_threshold (demo_body VariantB ''ann.jpg'' ''duo.jpg'') (JStr ''0.25'')))) = 200 \<and>
   res_threshold (payload (snd (handler VariantB demo_ext True
      (with_threshold (demo_body VariantB ''ann.jpg'' ''duo.jpg'') (JStr ''0.25''))))) =
     JStr ''0.25'' \<and>
   res_match (payload (snd (handler VariantB demo_ext True
      (with_threshold (demo_body VariantB ''ann.jpg'' ''duo.jpg'') (JStr ''0.25''))))) =
     num_lt (Fin (1 / 5)) (Fin (1 / 4))"
proof -
  let ?d1 = "[Detection [3 / 10], Detection [7 / 10]]"
  let ?d2 = "[Detection [1 / 10], Detection [9 / 10]]"
  let ?ms = "[FaceMatch ''person I'' (Fin (1 / 5)), FaceMatch ''person II'' (Fin (1 / 5))]"
  have ne: "?d1 \<noteq> []" "?d2 \<noteq> []" by simp_all
  \<comment> \<open>the first file, no threshold in the body\<close>
  let ?a = "demo_body VariantA ''ann.jpg'' ''duo.jpg''"
  let ?ra = "snd (handler VariantA demo_ext True ?a)"
  let ?ta = "with_default (JNum (Fin lit_0_6)) (get_prop ?a ''threshold'')"
  have a1: "truthy (get_prop ?a (field1 VariantA))" by (simp add: demo_body_def get_prop_def)
  have a2: "truthy (get_prop ?a (field2 VariantA))" by (simp add: demo_body_def get_prop_def)
  have a3: "detect_both (loadImage VariantA) demo_ext (get_prop ?a (field1 VariantA))
              (get_prop ?a (field2 VariantA)) = (demo_calls ''duo.jpg'' [1, 9], Inr (?d1, ?d2))"
    using demo_detect [of VariantA] by (simp only: demo_fields)
  have arun: "handler VariantA demo_ext True ?a = (fst (handler VariantA demo_ext True ?a), ?ra)"
    by simp
  note A = match_iff_distance_below_threshold [OF a1 a2 a3 ne arun]
  have anone: "?a ''threshold'' = None" by (simp add: demo_body_def)
  from A [THEN conjunct2, THEN conjunct2, THEN conjunct1] anone
  have athr: "to_number demo_ext ?ta = Inr (Fin lit_0_6)" by (rule mp)
  have "\<exists>fm ms y. newFaceMatcher demo_ext ?d2 = Inr fm \<and>
          map (\<lambda>d. findBestMatch demo_ext fm (descriptor d)) ?d1 = map Inr ms \<and>
          to_number demo_ext ?ta = Inr y"
    using demo_matcher demo_matches athr by (intro exI conjI)
  with A [THEN conjunct1] have aok: "status ?ra = 200" by (rule iffD2)
  from A [THEN conjunct2, THEN conjunct1] aok
  have aflag: "res_threshold (payload ?ra) = ?ta \<and>
      (\<exists>y. to_number demo_ext (res_threshold (payload ?ra)) = Inr y \<and>
           res_match (payload ?ra) = num_lt (res_distance (payload ?ra)) y)"
    by (rule mp)
  have ta: "?ta = JNum (Fin lit_0_6)" using anone by (simp add: get_prop_def)
  from aflag ta have at: "res_threshold (payload ?ra) = JNum (Fin lit_0_6)" by simp
  from aflag at have am: "res_match (payload ?ra) = num_lt (res_distance (payload ?ra)) (Fin lit_0_6)"
    by auto
  have ad: "res_distance (payload ?ra) = Fin (1 / 5)" using demo_run [of VariantA] by simp
  \<comment> \<open>the second file, the threshold a string\<close>
  let ?b = "with_threshold (demo_body VariantB ''ann.jpg'' ''duo.jpg'') (JStr ''0.25'')"
  let ?rb = "snd (handler VariantB demo_ext True ?b)"
  let ?tb = "with_default (JNum (Fin lit_0_6)) (get_prop ?b ''threshold'')"
  have b1: "truthy (get_prop ?b (field1 VariantB))"
    by (simp add: demo_body_def get_prop_def with_threshold_def)
  have b2: "truthy (get_prop ?b (field2 VariantB))"
    by (simp add: demo_body_def get_prop_def with_threshold_def)
  have b3: "detect_both (loadImage VariantB) demo_ext (get_prop ?b (field1 VariantB))
              (get_prop ?b (field2 VariantB)) = (demo_calls ''duo.jpg'' [1, 9], Inr (?d1, ?d2))"
    using demo_detect [of VariantB] by (simp only: demo_fields)
  have brun: "handler VariantB demo_ext True ?b = (fst (handler VariantB demo_ext True ?b), ?rb)"
    by simp
  note B = match_iff_distance_below_threshold [OF b1 b2 b3 ne brun]
  have bstr: "?b ''threshold'' = Some (JStr ''0.25'')" by (simp add: with_threshold_def)
  from B [THEN conjunct2, THEN conjunct2, THEN conjunct2, THEN conjunct2, THEN conjunct1,
      THEN spec, of "''0.25''"] bstr
  have "to_number demo_ext ?tb = Inr (string_to_number demo_ext ''0.25'')" by (rule mp)
  then have bthr: "to_number demo_ext ?tb = Inr (Fin (1 / 4))"
    by (simp add: demo_ext_def)
  have "\<exists>fm ms y. newFaceMatcher demo_ext ?d2 = Inr fm \<and>
          map (\<lambda>d. findBestMatch demo_ext fm (descriptor d)) ?d1 = map Inr ms \<and>
          to_number demo_ext ?tb = Inr y"
    using demo_matcher demo_matches bthr by (intro exI conjI)
  with B [THEN conjunct1] have bok: "status ?rb = 200" by (rule iffD2)
  from B [THEN conjunct2, THEN conjunct1] bok
  have bflag: "res_threshold (payload ?rb) = ?tb \<and>
      (\<exists>y. to_number demo_ext (res_threshold (payload ?rb)) = Inr y \<and>
           res_match (payload ?rb) = num_lt (res_distance (payload ?rb)) y)"
    by (rule mp)
  have tb: "?tb = JStr ''0.25''" using bstr by (simp add: get_prop_def)
  from bflag tb have bt: "res_threshold (payload ?rb) = JStr ''0.25''" by simp
  from bflag bt bthr tb
  have bm: "res_match (payload ?rb) = num_lt (res_distance (payload ?rb)) (Fin (1 / 4))"
    by auto
  have bd: "res_distance (payload ?rb) = Fin (1 / 5)" using demo_run_quarter [of VariantB] by simp
  from aok at am ad bok bt bm bd show ?thesis by simp
qed



text \<open>
  C2.  Take a request, to either file, whose two image fields are truthy and whose two
  images yield the non-empty detection collections \<open>d1\<close> and \<open>d2\<close>.  The 200 response is
  produced exactly when the matcher can be built from \<open>d2\<close>, answers every detection of
  \<open>d1\<close> and the threshold converts to a number.  Let \<open>ms\<close> be the nearest matches of the
  detections of \<open>d1\<close>, in order, with finite distances (as distances between descriptors
  are).  Then the distance in the 200 response is one of their distances and none of
  them is smaller: it is their minimum.  The match the loop retains is the first one in
  traversal order whose distance equals that minimum.
\<close>

theorem reported_distance_is_least:
  assumes "truthy (get_prop req_body (field1 v))" and "truthy (get_prop req_body (field2 v))"
    and "detect_both (loadImage v) ext (get_prop req_body (field1 v))
           (get_prop req_body (field2 v)) = (t1, Inr (d1, d2))"
    and "d1 \<noteq> []" and "d2 \<noteq> []"
    and "handler v ext True req_body = (t, r)"
  shows "(status r = 200 \<longleftrightarrow>
            (\<exists>fm ms y. newFaceMatcher ext d2 = Inr fm \<and>
               map (\<lambda>d. findBestMatch ext fm (descriptor d)) d1 = map Inr ms \<and>
               to_number ext
                 (with_default (JNum (Fin lit_0_6)) (get_prop req_body ''threshold'')) = Inr y)) \<and>
         (\<forall>fm ms.
            status r = 200 \<and> newFaceMatcher ext d2 = Inr fm \<and>
            map (\<lambda>d. findBestMatch ext fm (descriptor d)) d1 = map Inr ms \<and>
            (\<forall>m\<in>set ms. \<exists>x. distance m = Fin x) \<longrightarrow>
              res_distance (payload r) \<in> distance ` set ms \<and>
              (\<forall>m\<in>set ms. \<not> num_lt (distance m) (res_distance (payload r))) \<and>
              best_loop ext fm d1 (None, PosInf) =
                (map (\<lambda>d. FindBestMatch (descriptor d)) d1,
                 Inr (find (\<lambda>m. distance m = res_distance (payload r)) ms,
                      res_distance (payload r))))"
proof -
  let ?thr = "with_default (JNum (Fin lit_0_6)) (get_prop req_body ''threshold'')"
  note iff = handler_200_iff [OF assms]
  have least: "res_distance (payload r) \<in> distance ` set ms \<and>
        (\<forall>m\<in>set ms. \<not> num_lt (distance m) (res_distance (payload r))) \<and>
        best_loop ext fm d1 (None, PosInf) =
          (map (\<lambda>d. FindBestMatch (descriptor d)) d1,
           Inr (find (\<lambda>m. distance m = res_distance (payload r)) ms,
                res_distance (payload r)))"
    if ok: "status r = 200" and fm: "newFaceMatcher ext d2 = Inr fm"
      and ms: "map (\<lambda>d. findBestMatch ext fm (descriptor d)) d1 = map Inr ms"
      and fin: "\<forall>m\<in>set ms. \<exists>x. distance m = Fin x"
    for fm ms
  proof -
    from iff ok obtain y where y: "to_number ext ?thr = Inr y"
      by blast
    obtain bm bd where best: "best_of ms (None, PosInf) = (bm, bd)"
      by (cases "best_of ms (None, PosInf)")
    from handler_answers [OF assms(1-5) fm ms y] assms(6) best
    have bd: "res_distance (payload r) = bd" by auto
    from ms assms(4) have msne: "ms \<noteq> []" by (cases d1; cases ms) auto
    from best_of_finite [OF best msne fin] have
      "bd \<in> distance ` set ms" "\<forall>m\<in>set ms. \<not> num_lt (distance m) bd"
      "bm = find (\<lambda>m. distance m = bd) ms"
      by blast+
    moreover from best_loop_run [OF ms, of "(None, PosInf)"] best
    have "best_loop ext fm d1 (None, PosInf) =
            (map (\<lambda>d. FindBestMatch (descriptor d)) d1, Inr (bm, bd))" by simp
    ultimately show ?thesis using bd by simp
  qed
  from iff least show ?thesis by blast
qed

theorem reported_distance_is_least_witness:
  "status (snd (handler VariantA demo_ext True (demo_body VariantA ''ann.jpg'' ''duo.jpg''))) = 200 \<and>
   res_distance (payload (snd (handler VariantA demo_ext True
      (demo_body VariantA ''ann.jpg'' ''duo.jpg'')))) = Fin (1 / 5) \<and>
   status (snd (handler VariantB demo_ext True (demo_body VariantB ''ann.jpg'' ''duo.jpg''))) = 200 \<and>
   res_distance (payload (snd (handler VariantB demo_ext True
      (demo_body VariantB ''ann.jpg'' ''duo.jpg'')))) = Fin (1 / 5) \<and>
   Fin (1 / 5) \<in> distance `
      set [FaceMatch ''person I'' (Fin (1 / 5)), FaceMatch ''person II'' (Fin (1 / 5))] \<and>
   best_loop demo_ext (FaceMatcher [Detection [1 / 10], Detection [9 / 10]])
      [Detection [3 / 10], Detection [7 / 10]] (None, PosInf) =
     ([FindBestMatch [3 / 10], FindBestMatch [7 / 10]],
      Inr (Some (FaceMatch ''person I'' (Fin (1 / 5))), Fin (1 / 5)))"
proof -
  let ?d1 = "[Detection [3 / 10], Detection [7 / 10]]"
  let ?d2 = "[Detection [1 / 10], Detection [9 / 10]]"
  let ?ms = "[FaceMatch ''person I'' (Fin (1 / 5)), FaceMatch ''person II'' (Fin (1 / 5))]"
  have ne: "?d1 \<noteq> []" "?d2 \<noteq> []" by simp_all
  have fin: "\<forall>m\<in>set ?ms. \<exists>x. distance m = Fin x"
  proof
    fix m assume "m \<in> set ?ms"
    then have "distance m = Fin (1 / 5)" by auto
    then show "\<exists>x. distance m = Fin x" by blast
  qed
  have run: "status (snd (handler v demo_ext True (demo_body v ''ann.jpg'' ''duo.jpg''))) = 200 \<and>
      res_distance (payload (snd (handler v demo_ext True (demo_body v ''ann.jpg'' ''duo.jpg'')))) \<in>
        distance ` set ?ms \<and>
      best_loop demo_ext (FaceMatcher ?d2) ?d1 (None, PosInf) =
        (map (\<lambda>d. FindBestMatch (descriptor d)) ?d1,
         Inr (find (\<lambda>m. distance m =
                res_distance (payload (snd (handler v demo_ext True
                  (demo_body v ''ann.jpg'' ''duo.jpg''))))) ?ms,
              res_distance (payload (snd (handler v demo_ext True
                  (demo_body v ''ann.jpg'' ''duo.jpg''))))))" for v
  proof -
    let ?b = "demo_body v ''ann.jpg'' ''duo.jpg''"
    let ?r = "snd (handler v demo_ext True ?b)"
    have h1: "truthy (get_prop ?b (field1 v))" by (simp add: demo_fields)
    have h2: "truthy (get_prop ?b (field2 v))" by (simp add: demo_fields)
    have h3: "detect_both (loadImage v) demo_ext (get_prop ?b (field1 v))
                (get_prop ?b (field2 v)) = (demo_calls ''duo.jpg'' [1, 9], Inr (?d1, ?d2))"
      using demo_detect [of v] by (simp only: demo_fields)
    have hr: "handler v demo_ext True ?b = (fst (handler v demo_ext True ?b), ?r)" by simp
    note T = reported_distance_is_least [OF h1 h2 h3 ne hr]
    have thr: "to_number demo_ext
        (with_default (JNum (Fin lit_0_6)) (get_prop ?b ''threshold'')) = Inr (Fin lit_0_6)"
      by (simp add: get_prop_def demo_fields)
    have "\<exists>fm ms y. newFaceMatcher demo_ext ?d2 = Inr fm \<and>
            map (\<lambda>d. findBestMatch demo_ext fm (descriptor d)) ?d1 = map Inr ms \<and>
            to_number demo_ext
              (with_default (JNum (Fin lit_0_6)) (get_prop ?b ''threshold'')) = Inr y"
      using demo_matcher demo_matches thr by (intro exI conjI)
    with T [THEN conjunct1] have ok: "status ?r = 200" by (rule iffD2)
    have pre: "status ?r = 200 \<and> newFaceMatcher demo_ext ?d2 = Inr (FaceMatcher ?d2) \<and>
        map (\<lambda>d. findBestMatch demo_ext (FaceMatcher ?d2) (descriptor d)) ?d1 = map Inr ?ms \<and>
        (\<forall>m\<in>set ?ms. \<exists>x. distance m = Fin x)"
      using ok demo_matcher demo_matches fin by (intro conjI)
    from T [THEN conjunct2, THEN spec, THEN spec, THEN mp, OF pre] ok
    show ?thesis by (elim conjE) (intro conjI; assumption)
  qed
  have da: "res_distance (payload (snd (handler VariantA demo_ext True
      (demo_body VariantA ''ann.jpg'' ''duo.jpg'')))) = Fin (1 / 5)"
    using demo_run [of VariantA] by simp
  have db: "res_distance (payload (snd (handler VariantB demo_ext True
      (demo_body VariantB ''ann.jpg'' ''duo.jpg'')))) = Fin (1 / 5)"
    using demo_run [of VariantB] by simp
  have f: "find (\<lambda>m. distance m = Fin (1 / 5)) ?ms = Some (FaceMatch ''person I'' (Fin (1 / 5)))"
    by simp
  have m: "map (\<lambda>d. FindBestMatch (descriptor d)) ?d1 =
             [FindBestMatch [3 / 10], FindBestMatch [7 / 10]]"
    by simp
  note a = run [of VariantA, unfolded da f m]
  note b = run [of VariantB, unfolded db]
  from a have a1: "status (snd (handler VariantA demo_ext True
      (demo_body VariantA ''ann.jpg'' ''duo.jpg''))) = 200"
    and a2: "Fin (1 / 5) \<in> distance ` set ?ms"
    and a3: "best_loop demo_ext (FaceMatcher ?d2) ?d1 (None, PosInf) =
     ([FindBestMatch [3 / 10], FindBestMatch [7 / 10]],
      Inr (Some (FaceMatch ''person I'' (Fin (1 / 5))), Fin (1 / 5)))"
    by (rule conjunct1, rule conjunct2 [THEN conjunct1], rule conjunct2 [THEN conjunct2])
  from b have b1: "status (snd (handler VariantB demo_ext True
      (demo_body VariantB ''ann.jpg'' ''duo.jpg''))) = 200"
    by (rule conjunct1)
  from a1 da b1 db a2 a3 show ?thesis by (intro conjI)
qed

text \<open>
  C7.  Let the body supply the threshold 0, and let the matcher return no negative
  distance (it returns distances between descriptors).  Then every response of either
  file that carries a match flag has it false whenever the reported distance is not 0;
  the no-face response has it false as well.
\<close>
theorem zero_threshold_never_matches_positive_distance:
  assumes run: "handler v ext ml req_body = (t, r)"
    and zero: "get_prop req_body ''threshold'' = JNum (Fin 0)"
    and nonneg: "\<forall>fm q m. findBestMatch ext fm q = Inr m \<longrightarrow> \<not> num_lt (distance m) (Fin 0)"
  shows "(\<forall>m msg. payload r = NoFace m msg \<longrightarrow> \<not> m) \<and>
         (\<forall>m bd th msg n1 n2. payload r = Result m bd th msg n1 n2 \<longrightarrow>
            bd \<noteq> Fin 0 \<longrightarrow> \<not> m)"
proof -
  have nf: "\<forall>m msg. payload r = NoFace m msg \<longrightarrow> \<not> m"
    using compare_faces_outcomes [OF run [unfolded handler_eq]]
    by (auto simp: models_loading_def missing_field_def server_error_def no_face_def
        comparison_def)
  have "\<not> m" if res: "payload r = Result m bd th msg n1 n2" for m bd th msg n1 n2
  proof -
    have ok: "status r = 200"
      using compare_faces_outcomes [OF run [unfolded handler_eq]] res
      by (auto simp: models_loading_def missing_field_def server_error_def no_face_def)
    from compare_faces_200 [OF run [unfolded handler_eq] ok] zero
    obtain d1 d2 t2 where ne: "d1 \<noteq> []" "d2 \<noteq> []"
      and cd: "compare_detections ext (JNum (Fin 0)) d1 d2 = (t2, Inr r)"
      by auto
    from compare_detections_Inr [OF cd ne]
    obtain fm t3 bm' bd' isMatch where
      loop: "best_loop ext fm d1 (None, PosInf) = (t3, Inr (bm', bd'))"
      and lt: "js_less ext bd' (JNum (Fin 0)) = ([], Inr isMatch)"
      and r: "r = comparison isMatch bd' (JNum (Fin 0)) (length d1) (length d2)"
      by blast
    from best_loop_Inr [OF loop] obtain ms where
      ms: "map (\<lambda>d. findBestMatch ext fm (descriptor d)) d1 = map Inr ms"
      and best: "(bm', bd') = best_of ms (None, PosInf)"
      by blast
    have each: "\<not> num_lt (distance x) (Fin 0)" if "x \<in> set ms" for x
    proof -
      from that have "Inr x \<in> set (map Inr ms :: (error + facematch) list)" by simp
      with ms obtain d where "findBestMatch ext fm (descriptor d) = Inr x"
        by (metis (no_types, lifting) imageE list.set_map)
      with nonneg show ?thesis by blast
    qed
    from best_of_from_infinity [OF best [symmetric]]
    have "bd' = PosInf \<or> bd' \<in> distance ` set ms" by blast
    with each have "\<not> num_lt bd' (Fin 0)" by auto
    with lt have "\<not> isMatch" by simp
    with r res show ?thesis by (simp add: comparison_def)
  qed
  with nf show ?thesis by blast
qed

theorem zero_threshold_never_matches_positive_distance_witness:
  "payload (snd (handler VariantA demo_ext True
      (with_threshold (demo_body VariantA ''ann.jpg'' ''duo.jpg'') (JNum (Fin 0))))) =
     Result False (Fin (1 / 5)) (JNum (Fin 0)) ''Faces do not match.'' 2 2 \<and>
   Fin (1 / 5) \<noteq> Fin 0"
proof -
  let ?bz = "with_threshold (demo_body VariantA ''ann.jpg'' ''duo.jpg'') (JNum (Fin 0))"
  let ?rz = "snd (handler VariantA demo_ext True ?bz)"
  have runz: "handler VariantA demo_ext True ?bz = (fst (handler VariantA demo_ext True ?bz), ?rz)"
    by simp
  have z: "get_prop ?bz ''threshold'' = JNum (Fin 0)"
    by (simp add: get_prop_def with_threshold_def)
  have nn: "\<forall>fm q m. findBestMatch demo_ext fm q = Inr m \<longrightarrow> \<not> num_lt (distance m) (Fin 0)"
    using demo_nonneg by blast
  have p: "payload ?rz = Result (res_match (payload ?rz)) (Fin (1 / 5)) (JNum (Fin 0))
      ''Faces do not match.'' 2 2"
    using demo_run_zero [of VariantA] by (simp add: comparison_def)
  have ne: "Fin (1 / 5) \<noteq> Fin 0" by simp
  from zero_threshold_never_matches_positive_distance [OF runz z nn] p ne
  have "\<not> res_match (payload ?rz)" by blast
  with p ne show ?thesis by simp
qed

end
